theory Spec2Isabelle
  imports Complex_Main "HOL-Library.Multiset"
begin

section \<open>JavaScript values, exceptions and strings\<close>

text \<open>
  Every function of the bot that can throw returns a value of \<open>exn + 'a\<close>: \<open>Inl\<close> is the
  exception that leaves the function, \<open>Inr\<close> the value it returns. A \<^verbatim>\<open>try { ... } catch\<close>
  block is a case distinction on that sum. An \<^verbatim>\<open>await\<close> of a promise that rejects is a
  throw at the place of the \<^verbatim>\<open>await\<close>. Calls to the chain (the ethers provider, wallet and
  contract objects) are parameters of the functions that make them.
\<close>

datatype exn = TypeError string | Error string

fun message :: "exn \<Rightarrow> string" where
  "message (TypeError m) = m"
| "message (Error m) = m"

text \<open>\<^verbatim>\<open>String.prototype.toLowerCase\<close> on ASCII text (addresses and hashes are hex strings).\<close>

definition lowerChar :: "char \<Rightarrow> char" where
  "lowerChar c = (let n = (of_char c :: nat) in if 65 \<le> n \<and> n \<le> 90 then char_of (n + 32) else c)"

definition toLowerCase :: "string \<Rightarrow> string" where
  "toLowerCase s = map lowerChar s"

text \<open>\<^verbatim>\<open>String.prototype.includes\<close>: the argument occurs as a contiguous substring.\<close>

fun includesStr :: "string \<Rightarrow> string \<Rightarrow> bool" where
  "includesStr [] sub = (sub = [])"
| "includesStr (c # cs) sub = (take (length sub) (c # cs) = sub \<or> includesStr cs sub)"

text \<open>\<^verbatim>\<open>String.prototype.slice(n)\<close> for a non-negative \<open>n\<close>.\<close>

definition slice :: "nat \<Rightarrow> string \<Rightarrow> string" where
  "slice n s = drop n s"

section \<open>TokenManager: the token detector and the blacklist\<close>

text \<open>
  \<^verbatim>\<open>hasFee\<close> is written for an array of transaction logs. JavaScript is dynamically typed, so
  the argument it receives is modelled as a value that is either a string or an array of
  logs. A string has no \<^verbatim>\<open>filter\<close> method: calling \<^verbatim>\<open>logs.filter(...)\<close> on it throws a
  TypeError.
\<close>

record log =
  topics :: "string list"

datatype js_value = JString string | JLogs "log list"

definition TRANSFER_TOPIC :: string where
  "TRANSFER_TOPIC = ''0xddf252ad1be2c89b69c2b068fc378daa952ba7f163c4a11628f55a4df523b3ef''"

definition isTransferEvent :: "log \<Rightarrow> bool" where
  "isTransferEvent l = (case topics l of [] \<Rightarrow> False | t # _ \<Rightarrow> t = TRANSFER_TOPIC)"

fun transferHasFee :: "js_value \<Rightarrow> exn + bool" where
  "transferHasFee (JString s) = Inl (TypeError ''logs.filter is not a function'')"
| "transferHasFee (JLogs logs) = Inr (length (filter isTransferEvent logs) > 1)"

record detector_sig =
  selector :: string
  hasFee :: "(js_value \<Rightarrow> exn + bool) option"
  isRebase :: bool

text \<open>\<^verbatim>\<open>initTokenDetector\<close>: the object's entries, in insertion order.\<close>

definition tokenDetectorSigs :: "(string \<times> detector_sig) list" where
  "tokenDetectorSigs =
    [(''transfer(address,uint256)'',
        \<lparr>selector = ''0xa9059cbb'', hasFee = Some transferHasFee, isRebase = False\<rparr>),
     (''_beforeTokenTransfer(address,address,uint256)'',
        \<lparr>selector = ''0x4a15e35d'', hasFee = None, isRebase = True\<rparr>),
     (''rebase(uint256,uint256)'',
        \<lparr>selector = ''0x46a4e0ed'', hasFee = None, isRebase = True\<rparr>)]"

text \<open>
  The \<^verbatim>\<open>for\<close> loop of \<^verbatim>\<open>detectTokenFees\<close> over the entries. The token address, a string, is
  what \<^verbatim>\<open>hasFee\<close> is called with.
\<close>

fun detectLoop :: "string \<Rightarrow> string \<Rightarrow> (string \<times> detector_sig) list \<Rightarrow> exn + bool" where
  "detectLoop code tokenAddress [] = Inr False"
| "detectLoop code tokenAddress ((funcName, sg) # rest) =
    (if includesStr code (slice 2 (selector sg)) then
       (if isRebase sg then Inr True
        else (case hasFee sg of
                None \<Rightarrow> detectLoop code tokenAddress rest
              | Some f \<Rightarrow>
                  (case f (JString tokenAddress) of
                     Inl e \<Rightarrow> Inl e
                   | Inr b \<Rightarrow> if b then Inr True else detectLoop code tokenAddress rest)))
     else detectLoop code tokenAddress rest)"

text \<open>
  \<^verbatim>\<open>detectTokenFees\<close>: the whole body is inside \<^verbatim>\<open>try\<close>, and the \<^verbatim>\<open>catch\<close> returns false.
  \<open>getCode\<close> is \<^verbatim>\<open>provider.getCode\<close>.
\<close>

definition detectTokenFees :: "(string \<Rightarrow> exn + string) \<Rightarrow> string \<Rightarrow> exn + bool" where
  "detectTokenFees getCode tokenAddress =
    (case (case getCode tokenAddress of
             Inl e \<Rightarrow> Inl e
           | Inr code \<Rightarrow> detectLoop code tokenAddress tokenDetectorSigs) of
       Inl e \<Rightarrow> Inr False
     | Inr b \<Rightarrow> Inr b)"

text \<open>
  \<^verbatim>\<open>isTokenBlacklisted\<close>: returns the answer and the updated \<^verbatim>\<open>blacklistedTokens\<close> set.
\<close>

definition isTokenBlacklisted ::
  "(string \<Rightarrow> exn + string) \<Rightarrow> string set \<Rightarrow> string \<Rightarrow> bool \<times> string set" where
  "isTokenBlacklisted getCode blacklistedTokens tokenAddress =
    (let address = toLowerCase tokenAddress in
     if address \<in> blacklistedTokens then (True, blacklistedTokens)
     else (case detectTokenFees getCode address of
             Inr hasFees \<Rightarrow>
               if hasFees then (True, insert address blacklistedTokens)
               else (False, blacklistedTokens)
           | Inl e \<Rightarrow> (True, blacklistedTokens)))"

section \<open>TransactionDecoder: classifying a pending transaction\<close>

text \<open>
  ethers \<^verbatim>\<open>BigNumber\<close> values are integers of unbounded size. \<^verbatim>\<open>div\<close> truncates towards zero
  and throws on a zero divisor; \<^verbatim>\<open>toNumber\<close> throws outside the safe-integer range. Amounts
  that come from the chain (values decoded from call data as \<^verbatim>\<open>uint256\<close>, transaction values,
  gas prices, pool reserves) are unsigned and have type \<open>nat\<close>; amounts the bot computes
  have type \<open>int\<close>.
\<close>

definition truncDiv :: "int \<Rightarrow> int \<Rightarrow> int" where
  "truncDiv a b = sgn a * sgn b * (\<bar>a\<bar> div \<bar>b\<bar>)"

definition bn_div :: "int \<Rightarrow> int \<Rightarrow> exn + int" where
  "bn_div a b = (if b = 0 then Inl (Error ''division-by-zero'') else Inr (truncDiv a b))"

definition bn_toNumber :: "int \<Rightarrow> exn + int" where
  "bn_toNumber a = (if \<bar>a\<bar> \<le> 9007199254740991 then Inr a else Inl (Error ''overflow''))"

definition bindE :: "exn + 'a \<Rightarrow> ('a \<Rightarrow> exn + 'b) \<Rightarrow> exn + 'b" where
  "bindE m f = (case m of Inl e \<Rightarrow> Inl e | Inr x \<Rightarrow> f x)"

record tx =
  hash :: string
  to :: "string option"
  data :: string
  txvalue :: nat
  gasPrice :: nat

text \<open>The arguments of a decoded call; a field the function does not have is undefined.\<close>

record swap_args =
  arg_path :: "string list option"
  arg_amountIn :: "nat option"
  arg_amountOutMin :: "nat option"
  arg_amountInMax :: "nat option"
  arg_amountOut :: "nat option"
  arg_deadline :: "nat option"

record decoded_input =
  name :: string
  args :: swap_args

text \<open>
  One entry of \<^verbatim>\<open>config.SUPPORTED_DEXES\<close>. \<open>dex_parse\<close> is \<^verbatim>\<open>parseTransaction\<close> of the ethers
  \<^verbatim>\<open>Interface\<close> built from the entry's ABI: it throws when the selector is not in the ABI or
  the arguments do not decode.
\<close>

record dex =
  dex_address :: string
  dex_factory :: string
  dex_initCodeHash :: string
  dex_parse :: "string \<Rightarrow> exn + decoded_input"

definition routerInterfaces :: "dex list \<Rightarrow> string \<rightharpoonup> (string \<Rightarrow> exn + decoded_input)" where
  "routerInterfaces dexes =
     fold (\<lambda>d m. m(toLowerCase (dex_address d) \<mapsto> dex_parse d)) dexes Map.empty"

definition factoryMapping :: "dex list \<Rightarrow> string \<rightharpoonup> string" where
  "factoryMapping dexes =
     fold (\<lambda>d m. m(toLowerCase (dex_address d) \<mapsto> dex_factory d)) dexes Map.empty"

definition isSupportedRouter :: "dex list \<Rightarrow> string \<Rightarrow> bool" where
  "isSupportedRouter dexes address =
     list_ex (\<lambda>d. toLowerCase (dex_address d) = toLowerCase address) dexes"

definition startsWith :: "string \<Rightarrow> string \<Rightarrow> bool" where
  "startsWith s p = (take (length p) s = p)"

definition isSwapFunction :: "string \<Rightarrow> bool" where
  "isSwapFunction functionName =
     (startsWith functionName ''swap'' \<or> includesStr functionName ''Swap''
        \<or> includesStr functionName ''ExactTokens'')"

record swap_details =
  sd_path :: "string list option"
  sd_amountIn :: "nat option"
  sd_amountOutMin :: "nat option"
  sd_amountOut :: "nat option"
  sd_deadline :: "nat option"

text \<open>
  \<^verbatim>\<open>args.path.filter(p => p.toLowerCase() !== WETH.toLowerCase())\<close>; it throws a TypeError
  when \<^verbatim>\<open>args.path\<close> is undefined.
\<close>

definition withoutWETH :: "string \<Rightarrow> string list option \<Rightarrow> exn + string list" where
  "withoutWETH WETH p =
     (case p of
        None \<Rightarrow> Inl (TypeError ''Cannot read properties of undefined'')
      | Some ps \<Rightarrow> Inr (filter (\<lambda>q. toLowerCase q \<noteq> toLowerCase WETH) ps))"

text \<open>
  \<^verbatim>\<open>extractSwapDetails\<close>: \<open>None\<close> is null. The body is inside \<^verbatim>\<open>try\<close>, whose \<^verbatim>\<open>catch\<close>
  returns null.
\<close>

definition extractSwapDetails :: "string \<Rightarrow> decoded_input \<Rightarrow> tx \<Rightarrow> swap_details option" where
  "extractSwapDetails WETH decodedInput t =
    (let n = name decodedInput; a = args decodedInput in
     case
      (if includesStr n ''swapExactTokensForTokens'' then
         Inr (Some \<lparr>sd_path = arg_path a, sd_amountIn = arg_amountIn a,
                    sd_amountOutMin = arg_amountOutMin a, sd_amountOut = None,
                    sd_deadline = arg_deadline a\<rparr>)
       else if includesStr n ''swapTokensForExactTokens'' then
         Inr (Some \<lparr>sd_path = arg_path a, sd_amountIn = arg_amountInMax a,
                    sd_amountOutMin = None, sd_amountOut = arg_amountOut a,
                    sd_deadline = arg_deadline a\<rparr>)
       else if includesStr n ''swapExactETHForTokens'' then
         bindE (withoutWETH WETH (arg_path a)) (\<lambda>ps.
         Inr (Some \<lparr>sd_path = Some (WETH # ps), sd_amountIn = Some (txvalue t),
                    sd_amountOutMin = arg_amountOutMin a, sd_amountOut = None,
                    sd_deadline = arg_deadline a\<rparr>))
       else if includesStr n ''swapExactTokensForETH'' then
         bindE (withoutWETH WETH (arg_path a)) (\<lambda>ps.
         Inr (Some \<lparr>sd_path = Some (ps @ [WETH]), sd_amountIn = arg_amountIn a,
                    sd_amountOutMin = arg_amountOutMin a, sd_amountOut = None,
                    sd_deadline = arg_deadline a\<rparr>))
       else if includesStr n ''swapTokensForExactETH'' then
         bindE (withoutWETH WETH (arg_path a)) (\<lambda>ps.
         Inr (Some \<lparr>sd_path = Some (ps @ [WETH]), sd_amountIn = arg_amountInMax a,
                    sd_amountOutMin = None, sd_amountOut = arg_amountOut a,
                    sd_deadline = arg_deadline a\<rparr>))
       else if includesStr n ''swapETHForExactTokens'' then
         bindE (withoutWETH WETH (arg_path a)) (\<lambda>ps.
         Inr (Some \<lparr>sd_path = Some (WETH # ps), sd_amountIn = Some (txvalue t),
                    sd_amountOutMin = None, sd_amountOut = arg_amountOut a,
                    sd_deadline = arg_deadline a\<rparr>))
       else Inr None)
     of Inl e \<Rightarrow> None | Inr r \<Rightarrow> r)"

record liquidity =
  isLiquid :: bool
  isTooDeep :: bool

record pair_info =
  token0 :: string
  token1 :: string
  reserve0 :: nat
  reserve1 :: nat

text \<open>
  What the decoder calls on its TokenManager and on the chain, each an \<^verbatim>\<open>await\<close> that can
  reject, and the clock.
\<close>

record decoder_env =
  tm_isTokenBlacklisted :: "string \<Rightarrow> exn + bool"
  tm_checkPairLiquidity :: "string \<Rightarrow> string \<Rightarrow> exn + liquidity"
  tm_getTokenValueInETH :: "string \<Rightarrow> nat \<Rightarrow> exn + int"
  tm_getPairReserves :: "string \<Rightarrow> string \<Rightarrow> string \<Rightarrow> exn + pair_info option"
  create2PairAddress :: "string \<Rightarrow> string \<Rightarrow> string \<Rightarrow> exn + string"
  dateNow :: int

definition isValidTokenPair :: "decoder_env \<Rightarrow> string list option \<Rightarrow> exn + bool" where
  "isValidTokenPair env p =
    (case p of
       None \<Rightarrow> Inr False
     | Some ps \<Rightarrow>
        if length ps < 2 then Inr False
        else
          (let tokenA = hd ps; tokenB = last ps in
           bindE (tm_isTokenBlacklisted env tokenA) (\<lambda>blA.
           bindE (if blA then Inr True else tm_isTokenBlacklisted env tokenB) (\<lambda>bl.
           if bl then Inr False
           else bindE (tm_checkPairLiquidity env tokenA tokenB) (\<lambda>lc.
                Inr (isLiquid lc \<and> \<not> isTooDeep lc))))))"

text \<open>
  \<^verbatim>\<open>getPairAddress\<close>: the factory of the router must be known; the address computation
  itself (keccak and create2, with the fallback call to the factory) is \<open>create2PairAddress\<close>.
\<close>

definition getPairAddress ::
  "dex list \<Rightarrow> decoder_env \<Rightarrow> string \<Rightarrow> string \<Rightarrow> string \<Rightarrow> exn + string" where
  "getPairAddress dexes env tokenA tokenB routerAddress =
    (case factoryMapping dexes (toLowerCase routerAddress) of
       None \<Rightarrow> Inl (Error ''Factory address not found for router'')
     | Some f \<Rightarrow> create2PairAddress env tokenA tokenB routerAddress)"

record sandwich_parameters =
  p_optimalFrontRunAmount :: int
  p_optimalBackRunAmount :: int
  p_estimatedProfit :: int
  p_confidence :: real

text \<open>\<^verbatim>\<open>calculateSandwichParameters\<close> of the decoder (the simplified estimate).\<close>

definition calculateSandwichParameters ::
  "string list \<Rightarrow> nat \<Rightarrow> pair_info \<Rightarrow> exn + sandwich_parameters" where
  "calculateSandwichParameters p victimAmountIn pairInfo =
    (let token0IsInput = (toLowerCase (hd p) = toLowerCase (token0 pairInfo));
         reserveIn = (if token0IsInput then reserve0 pairInfo else reserve1 pairInfo) in
     bindE (bn_div (int victimAmountIn * 20) 100) (\<lambda>optimalFrontRunAmount.
     bindE (bn_div (int victimAmountIn * 1000) (int reserveIn)) (\<lambda>q.
     bindE (bn_toNumber q) (\<lambda>qn.
     let priceImpact = real_of_int qn / 1000;
         confidence = min 1 (max 0 (1 - priceImpact * 2)) in
     bindE (bn_div (int victimAmountIn * 20) 10000) (\<lambda>estimatedProfit.
     bindE (bn_div (optimalFrontRunAmount * 95) 100) (\<lambda>optimalBackRunAmount.
     Inr \<lparr>p_optimalFrontRunAmount = optimalFrontRunAmount,
          p_optimalBackRunAmount = optimalBackRunAmount,
          p_estimatedProfit = estimatedProfit,
          p_confidence = confidence\<rparr>))))))"

record opportunity =
  victimTx :: string
  router :: string
  path :: "string list"
  amountIn :: nat
  amountOutMin :: "nat option"
  deadline :: "nat option"
  pairAddress :: string
  pairInfo :: pair_info
  optimalFrontRunAmount :: int
  optimalBackRunAmount :: int
  estimatedProfit :: int
  confidence :: real
  opp_gasPrice :: nat
  suggestedGasPrice :: int
  submittedTime :: int

text \<open>
  The part of \<^verbatim>\<open>analyzePendingTransaction\<close> after the call has been decoded and recognised
  as a swap. An undefined \<^verbatim>\<open>amountIn\<close> makes the BigNumber arithmetic throw.
\<close>

definition analyzeSwap ::
  "dex list \<Rightarrow> int \<Rightarrow> decoder_env \<Rightarrow> tx \<Rightarrow> string \<Rightarrow> swap_details \<Rightarrow> exn + opportunity option" where
  "analyzeSwap dexes minOpportunitySize env t routerAddr sd =
    bindE (isValidTokenPair env (sd_path sd)) (\<lambda>valid.
    if \<not> valid then Inr None
    else
      (let p = the (sd_path sd) in
       bindE (case sd_amountIn sd of
                None \<Rightarrow> Inl (TypeError ''invalid BigNumber value'')
              | Some a \<Rightarrow> Inr a) (\<lambda>amtIn.
       bindE (tm_getTokenValueInETH env (hd p) amtIn) (\<lambda>tokenInValue.
       if tokenInValue < minOpportunitySize then Inr None
       else
         bindE (getPairAddress dexes env (hd p) (hd (tl p)) routerAddr) (\<lambda>pairAddr.
         bindE (tm_getPairReserves env pairAddr (hd p) (hd (tl p))) (\<lambda>pi.
         case pi of
           None \<Rightarrow> Inr None
         | Some pinfo \<Rightarrow>
             bindE (calculateSandwichParameters p amtIn pinfo) (\<lambda>sp.
             if p_estimatedProfit sp \<le> 0 \<or> p_confidence sp < 0.7 then Inr None
             else
               bindE (bn_div (int (gasPrice t) * 115) 100) (\<lambda>suggested.
               Inr (Some \<lparr>victimTx = hash t, router = routerAddr, path = p,
                          amountIn = amtIn, amountOutMin = sd_amountOutMin sd,
                          deadline = sd_deadline sd, pairAddress = pairAddr,
                          pairInfo = pinfo,
                          optimalFrontRunAmount = p_optimalFrontRunAmount sp,
                          optimalBackRunAmount = p_optimalBackRunAmount sp,
                          estimatedProfit = p_estimatedProfit sp,
                          confidence = p_confidence sp,
                          opp_gasPrice = gasPrice t,
                          suggestedGasPrice = suggested,
                          submittedTime = dateNow env\<rparr>)))))))))"

text \<open>
  \<^verbatim>\<open>analyzePendingTransaction\<close>. The router check is outside \<^verbatim>\<open>try\<close>; everything after it
  is inside, and the \<^verbatim>\<open>catch\<close> returns null. The call to \<^verbatim>\<open>parseTransaction\<close> has a
  \<^verbatim>\<open>try\<close> of its own that returns null.
\<close>

definition analyzePendingTransaction ::
  "dex list \<Rightarrow> string \<Rightarrow> int \<Rightarrow> decoder_env \<Rightarrow> tx \<Rightarrow> exn + opportunity option" where
  "analyzePendingTransaction dexes WETH minOpportunitySize env t =
    (case to t of
       None \<Rightarrow> Inr None
     | Some r \<Rightarrow>
        if r = [] \<or> \<not> isSupportedRouter dexes r then Inr None
        else
          (case
             (case routerInterfaces dexes (toLowerCase r) of
                None \<Rightarrow> Inr None
              | Some routerInterface \<Rightarrow>
                 (case routerInterface (data t) of
                    Inl e \<Rightarrow> Inr None
                  | Inr decodedInput \<Rightarrow>
                     if \<not> isSwapFunction (name decodedInput) then Inr None
                     else
                       (case extractSwapDetails WETH decodedInput t of
                          None \<Rightarrow> Inr None
                        | Some sd \<Rightarrow> analyzeSwap dexes minOpportunitySize env t r sd)))
           of Inl e \<Rightarrow> Inr None
            | Inr res \<Rightarrow> Inr res))"

section \<open>SandwichExecutor: the nonce counter and the dispatch\<close>

text \<open>
  The executor object: \<^verbatim>\<open>currentNonce\<close> is null (\<open>None\<close>) until the first refresh,
  \<^verbatim>\<open>lastNonceRefresh\<close> and \<^verbatim>\<open>nonceRefreshInterval\<close> are milliseconds. \<open>sent\<close> records, in
  order, every transaction the executor has handed to the contract object for submission.
\<close>

record submission =
  sub_method :: string
  sub_tokenA :: "string option"
  sub_tokenB :: string
  sub_flashLoanAmount :: "int option"
  sub_frontRunAmount :: int
  sub_victimAmountMin :: int
  sub_victimAmountMax :: int
  sub_backRunAmount :: int
  sub_deadline :: int
  sub_value :: "int option"
  sub_gasPrice :: int
  sub_gasLimit :: int
  sub_nonce :: nat

record executor =
  currentNonce :: "nat option"
  lastNonceRefresh :: int
  nonceRefreshInterval :: int
  sent :: "submission list"

text \<open>The constructor.\<close>

definition newSandwichExecutor :: executor where
  "newSandwichExecutor =
     \<lparr>currentNonce = None, lastNonceRefresh = 0, nonceRefreshInterval = 30000, sent = []\<rparr>"

text \<open>\<^verbatim>\<open>!this.currentNonce\<close>: null is falsy, and so is the number 0.\<close>

definition noNonce :: "nat option \<Rightarrow> bool" where
  "noNonce n = (case n of None \<Rightarrow> True | Some k \<Rightarrow> k = 0)"

record receipt =
  profitEvent :: "int option"
  gasUsed :: int
  effectiveGasPrice :: int

text \<open>
  What a dispatch reads from outside: the clock, the answer of
  \<^verbatim>\<open>wallet.getTransactionCount()\<close>, the answer of the contract call that submits the
  transaction (its hash, or a rejection) and the outcome of tracking it (a receipt, or the
  error text of a revert or a timeout).
\<close>

record executor_env =
  ex_now :: int
  getTransactionCount :: "exn + nat"
  contractSend :: "submission \<Rightarrow> exn + string"
  trackTransaction :: "string \<Rightarrow> string + receipt"

text \<open>\<^verbatim>\<open>refreshNonce\<close>: the new state of the executor, or the exception thrown.\<close>

definition refreshNonce :: "executor_env \<Rightarrow> executor \<Rightarrow> exn + executor" where
  "refreshNonce env s =
    (let now = ex_now env in
     if noNonce (currentNonce s) \<or> now - lastNonceRefresh s > nonceRefreshInterval s then
       (case getTransactionCount env of
          Inr n \<Rightarrow> Inr (s\<lparr>currentNonce := Some n, lastNonceRefresh := now\<rparr>)
        | Inl e \<Rightarrow>
            if noNonce (currentNonce s)
            then Inl (Error ''Failed to get nonce and no previous nonce available'')
            else Inr s)
     else Inr s)"

datatype exec_result =
  Success string int int receipt
| Failure string

fun success :: "exec_result \<Rightarrow> bool" where
  "success (Success h p g r) = True"
| "success (Failure m) = False"

record exec_params =
  flashLoanAmount :: int
  frontRunAmount :: int
  backRunAmount :: int
  ex_gasPrice :: int
  gasLimit :: int

text \<open>
  The common tail of \<^verbatim>\<open>executeWithETH\<close> and \<^verbatim>\<open>executeWithFlashLoan\<close>: the contract call
  that submits the transaction, then tracking. Both sit inside \<^verbatim>\<open>try\<close>; the \<^verbatim>\<open>catch\<close>
  returns a failure result.
\<close>

definition submitAndTrack :: "executor_env \<Rightarrow> submission \<Rightarrow> executor \<Rightarrow> exec_result \<times> executor" where
  "submitAndTrack env sub s =
    (let s' = s\<lparr>sent := sent s @ [sub]\<rparr> in
     case contractSend env sub of
       Inl e \<Rightarrow> (Failure (message e), s')
     | Inr txHash \<Rightarrow>
        (case trackTransaction env txHash of
           Inl err \<Rightarrow> (Failure err, s')
         | Inr rc \<Rightarrow>
             (Success txHash (case profitEvent rc of None \<Rightarrow> 0 | Some p \<Rightarrow> p)
                (gasUsed rc * effectiveGasPrice rc) rc, s')))"

definition executeWithETH ::
  "executor_env \<Rightarrow> string \<Rightarrow> int \<Rightarrow> int \<Rightarrow> int \<Rightarrow> int \<Rightarrow> int \<Rightarrow> int \<Rightarrow> nat \<Rightarrow> executor
     \<Rightarrow> exec_result \<times> executor" where
  "executeWithETH env tokenB frontRun backRun victimAmount gasPrice' gasLimit' deadline' nonce s =
    (case bindE (bn_div (victimAmount * 90) 100) (\<lambda>victimAmountMin.
          bindE (bn_div (victimAmount * 110) 100) (\<lambda>victimAmountMax.
          Inr \<lparr>sub_method = ''executeSandwichWithETH'', sub_tokenA = None, sub_tokenB = tokenB,
               sub_flashLoanAmount = None, sub_frontRunAmount = frontRun,
               sub_victimAmountMin = victimAmountMin, sub_victimAmountMax = victimAmountMax,
               sub_backRunAmount = backRun, sub_deadline = deadline',
               sub_value = Some frontRun, sub_gasPrice = gasPrice', sub_gasLimit = gasLimit',
               sub_nonce = nonce\<rparr>)) of
       Inl e \<Rightarrow> (Failure (message e), s)
     | Inr sub \<Rightarrow> submitAndTrack env sub s)"

definition executeWithFlashLoan ::
  "executor_env \<Rightarrow> string \<Rightarrow> string \<Rightarrow> int \<Rightarrow> int \<Rightarrow> int \<Rightarrow> int \<Rightarrow> int \<Rightarrow> int \<Rightarrow> int \<Rightarrow> nat
     \<Rightarrow> executor \<Rightarrow> exec_result \<times> executor" where
  "executeWithFlashLoan env tokenA tokenB flashLoan frontRun backRun victimAmount gasPrice'
       gasLimit' deadline' nonce s =
    (case bindE (bn_div (victimAmount * 90) 100) (\<lambda>victimAmountMin.
          bindE (bn_div (victimAmount * 110) 100) (\<lambda>victimAmountMax.
          Inr \<lparr>sub_method = ''executeSandwich'', sub_tokenA = Some tokenA, sub_tokenB = tokenB,
               sub_flashLoanAmount = Some flashLoan, sub_frontRunAmount = frontRun,
               sub_victimAmountMin = victimAmountMin, sub_victimAmountMax = victimAmountMax,
               sub_backRunAmount = backRun, sub_deadline = deadline',
               sub_value = None, sub_gasPrice = gasPrice', sub_gasLimit = gasLimit',
               sub_nonce = nonce\<rparr>)) of
       Inl e \<Rightarrow> (Failure (message e), s)
     | Inr sub \<Rightarrow> submitAndTrack env sub s)"

text \<open>
  \<^verbatim>\<open>executeSandwich\<close>. \<open>path\<close> and \<open>amountIn\<close> are the fields of the opportunity it reads.
  The nonce is taken by \<^verbatim>\<open>this.currentNonce++\<close> after the refresh; an opportunity with an
  empty path makes \<^verbatim>\<open>tokenA.toLowerCase()\<close> throw after the counter has moved, and one
  with a single token passes an undefined \<^verbatim>\<open>tokenB\<close>, which the contract call rejects.
\<close>

definition executeSandwich ::
  "string \<Rightarrow> bool \<Rightarrow> executor_env \<Rightarrow> string list \<Rightarrow> int \<Rightarrow> exec_params \<Rightarrow> executor
     \<Rightarrow> exec_result \<times> executor" where
  "executeSandwich WETH_ADDRESS USE_DIRECT_ETH env opp_path opp_amountIn params s =
    (case refreshNonce env s of
       Inl e \<Rightarrow> (Failure (message e), s)
     | Inr s1 \<Rightarrow>
        (let deadline' = ex_now env div 1000 + 60;
             nonce = (case currentNonce s1 of None \<Rightarrow> 0 | Some n \<Rightarrow> n);
             s2 = s1\<lparr>currentNonce := Some (nonce + 1)\<rparr> in
         case opp_path of
           [] \<Rightarrow> (Failure ''Cannot read properties of undefined'', s2)
         | [tokenA] \<Rightarrow> (Failure ''invalid address'', s2)
         | tokenA # tokenB # rest \<Rightarrow>
            if toLowerCase tokenA = toLowerCase WETH_ADDRESS \<and> USE_DIRECT_ETH then
              executeWithETH env tokenB (frontRunAmount params) (backRunAmount params)
                opp_amountIn (ex_gasPrice params) (gasLimit params) deadline' nonce s2
            else
              executeWithFlashLoan env tokenA tokenB (flashLoanAmount params)
                (frontRunAmount params) (backRunAmount params) opp_amountIn
                (ex_gasPrice params) (gasLimit params) deadline' nonce s2))"

text \<open>
  Two states of the executor that differ at most by one submission, made with the given
  nonce, at the end of \<open>sent\<close>.
\<close>

definition sameButSent :: "nat \<Rightarrow> executor \<Rightarrow> executor \<Rightarrow> bool" where
  "sameButSent nonce s s' \<longleftrightarrow>
     (s' = s \<or> (\<exists>sub. s' = s\<lparr>sent := sent s @ [sub]\<rparr> \<and> sub_nonce sub = nonce))"

section \<open>OpportunityProcessor and MempoolObserver: the in-flight set\<close>

text \<open>
  A JavaScript \<^verbatim>\<open>Map\<close> keeps its entries in insertion order; \<^verbatim>\<open>set\<close> on a key that is
  present replaces the value in place, on a new key it appends the entry.
\<close>

fun map_set :: "'k \<Rightarrow> 'v \<Rightarrow> ('k \<times> 'v) list \<Rightarrow> ('k \<times> 'v) list" where
  "map_set k v [] = [(k, v)]"
| "map_set k v ((k', v') # rest) =
     (if k' = k then (k, v) # rest else (k', v') # map_set k v rest)"

fun map_get :: "('k \<times> 'v) list \<Rightarrow> 'k \<Rightarrow> 'v option" where
  "map_get [] k = None"
| "map_get ((k', v') # rest) k = (if k' = k then Some v' else map_get rest k)"

definition map_delete :: "'k \<Rightarrow> ('k \<times> 'v) list \<Rightarrow> ('k \<times> 'v) list" where
  "map_delete k m = filter (\<lambda>e. fst e \<noteq> k) m"

text \<open>How many entries a map holds for a key.\<close>

definition entriesFor :: "'k \<Rightarrow> ('k \<times> 'v) list \<Rightarrow> nat" where
  "entriesFor k m = length (filter (\<lambda>e. fst e = k) m)"

text \<open>
  The processor's state: \<^verbatim>\<open>pendingOpportunities\<close> maps a transaction hash to the
  opportunity and its detection time, \<^verbatim>\<open>processedOpportunities\<close> is a set of hashes. The
  opportunity is not inspected here, so its type is left open.
\<close>

record 'o processor =
  pendingOpportunities :: "(string \<times> ('o \<times> int)) list"
  processedOpportunities :: "string set"

definition newOpportunityProcessor :: "'o processor" where
  "newOpportunityProcessor = \<lparr>pendingOpportunities = [], processedOpportunities = {}\<rparr>"

text \<open>\<^verbatim>\<open>addOpportunity\<close>; \<open>now\<close> is \<^verbatim>\<open>Date.now()\<close>.\<close>

definition addOpportunity :: "int \<Rightarrow> string \<Rightarrow> 'o \<Rightarrow> 'o processor \<Rightarrow> bool \<times> 'o processor" where
  "addOpportunity now txHash opp s =
    (if txHash \<in> processedOpportunities s then (False, s)
     else (True, s\<lparr>pendingOpportunities :=
                      map_set txHash (opp, now) (pendingOpportunities s)\<rparr>))"

text \<open>A run of detections, each with its clock reading.\<close>

fun addAll :: "(int \<times> string \<times> 'o) list \<Rightarrow> 'o processor \<Rightarrow> 'o processor" where
  "addAll [] s = s"
| "addAll ((now, txHash, opp) # rest) s = addAll rest (snd (addOpportunity now txHash opp s))"

text \<open>
  The observer's message handler for one pending-transaction notification, run to
  completion. \<^verbatim>\<open>processedTxs\<close> is a \<^verbatim>\<open>Set\<close>, kept in insertion order because the size limit
  deletes its oldest 1000 members. \<open>detect\<close> is the outcome of \<^verbatim>\<open>handlePendingTransaction\<close>
  up to its last statement: the opportunity and its parameters when the transaction was
  fetched, classified and found profitable, \<open>None\<close> when it returned early or threw.
\<close>

record 'o observer =
  obs_pendingOpportunities :: "(string \<times> ('o \<times> int)) list"
  processedTxs :: "string list"

definition handlePendingTransaction ::
  "(string \<Rightarrow> 'o option) \<Rightarrow> int \<Rightarrow> string \<Rightarrow> 'o observer \<Rightarrow> 'o observer" where
  "handlePendingTransaction detect now txHash s =
    (case detect txHash of
       None \<Rightarrow> s
     | Some opp \<Rightarrow>
         s\<lparr>obs_pendingOpportunities := map_set txHash (opp, now) (obs_pendingOpportunities s)\<rparr>)"

definition onPendingNotification ::
  "(string \<Rightarrow> 'o option) \<Rightarrow> int \<Rightarrow> string \<Rightarrow> 'o observer \<Rightarrow> 'o observer" where
  "onPendingNotification detect now txHash s =
    (if txHash \<in> set (processedTxs s) then s
     else
       (let s1 = handlePendingTransaction detect now txHash s;
            seen = processedTxs s1 @ [txHash] in
        s1\<lparr>processedTxs := (if length seen > 10000 then drop 1000 seen else seen)\<rparr>))"

section \<open>JavaScript numbers and their conversions\<close>

text \<open>
  The optimizer computes with JavaScript numbers (IEEE-754 doubles). They are modelled
  with exact arithmetic on the finite values: \<open>Num r\<close> is the double that stands for the
  real \<open>r\<close>, without rounding, overflow or a negative zero, and \<open>NaN\<close>, \<open>PosInf\<close> and
  \<open>NegInf\<close> are the three special values with the results IEEE-754 gives them (a zero
  divisor, the root of a negative number, \<^verbatim>\<open>Math.max\<close> and \<^verbatim>\<open>Math.min\<close> of a NaN).
\<close>

datatype jsnum = Num real | NaN | PosInf | NegInf

fun js_neg :: "jsnum \<Rightarrow> jsnum" where
  "js_neg (Num a) = Num (- a)"
| "js_neg NaN = NaN"
| "js_neg PosInf = NegInf"
| "js_neg NegInf = PosInf"

fun js_add :: "jsnum \<Rightarrow> jsnum \<Rightarrow> jsnum" where
  "js_add (Num a) (Num b) = Num (a + b)"
| "js_add NaN b = NaN"
| "js_add a NaN = NaN"
| "js_add PosInf NegInf = NaN"
| "js_add NegInf PosInf = NaN"
| "js_add PosInf b = PosInf"
| "js_add NegInf b = NegInf"
| "js_add a PosInf = PosInf"
| "js_add a NegInf = NegInf"

definition js_sub :: "jsnum \<Rightarrow> jsnum \<Rightarrow> jsnum" where
  "js_sub a b = js_add a (js_neg b)"

definition signedInf :: "bool \<Rightarrow> jsnum" where
  "signedInf positive = (if positive then PosInf else NegInf)"

fun js_mul :: "jsnum \<Rightarrow> jsnum \<Rightarrow> jsnum" where
  "js_mul (Num a) (Num b) = Num (a * b)"
| "js_mul NaN b = NaN"
| "js_mul a NaN = NaN"
| "js_mul (Num a) PosInf = (if a = 0 then NaN else signedInf (0 < a))"
| "js_mul (Num a) NegInf = (if a = 0 then NaN else signedInf (a < 0))"
| "js_mul PosInf (Num b) = (if b = 0 then NaN else signedInf (0 < b))"
| "js_mul NegInf (Num b) = (if b = 0 then NaN else signedInf (b < 0))"
| "js_mul PosInf PosInf = PosInf"
| "js_mul NegInf NegInf = PosInf"
| "js_mul PosInf NegInf = NegInf"
| "js_mul NegInf PosInf = NegInf"

fun js_div :: "jsnum \<Rightarrow> jsnum \<Rightarrow> jsnum" where
  "js_div (Num a) (Num b) =
     (if b \<noteq> 0 then Num (a / b) else if a = 0 then NaN else signedInf (0 < a))"
| "js_div NaN b = NaN"
| "js_div a NaN = NaN"
| "js_div (Num a) PosInf = Num 0"
| "js_div (Num a) NegInf = Num 0"
| "js_div PosInf (Num b) = signedInf (0 \<le> b)"
| "js_div NegInf (Num b) = signedInf (b < 0)"
| "js_div a b = NaN"

fun js_sqrt :: "jsnum \<Rightarrow> jsnum" where
  "js_sqrt (Num a) = (if a < 0 then NaN else Num (sqrt a))"
| "js_sqrt PosInf = PosInf"
| "js_sqrt a = NaN"

fun js_max :: "jsnum \<Rightarrow> jsnum \<Rightarrow> jsnum" where
  "js_max (Num a) (Num b) = Num (max a b)"
| "js_max NaN b = NaN"
| "js_max a NaN = NaN"
| "js_max PosInf b = PosInf"
| "js_max a PosInf = PosInf"
| "js_max NegInf b = b"
| "js_max a NegInf = a"

fun js_min :: "jsnum \<Rightarrow> jsnum \<Rightarrow> jsnum" where
  "js_min (Num a) (Num b) = Num (min a b)"
| "js_min NaN b = NaN"
| "js_min a NaN = NaN"
| "js_min NegInf b = NegInf"
| "js_min a NegInf = NegInf"
| "js_min PosInf b = b"
| "js_min a PosInf = a"

text \<open>
  Decimal strings. \<^verbatim>\<open>formatEther\<close> of ethers prints an amount of wei as ether: the whole
  part, a dot, and the 18-digit fraction without its trailing zeros (at least one digit).
\<close>

definition digitChar :: "nat \<Rightarrow> char" where
  "digitChar d = ''0123456789'' ! d"

fun natToString :: "nat \<Rightarrow> string" where
  "natToString n = (if n < 10 then [digitChar n] else natToString (n div 10) @ [digitChar (n mod 10)])"

declare natToString.simps [simp del]

definition isDigit :: "char \<Rightarrow> bool" where
  "isDigit c = (let n = (of_char c :: nat) in 48 \<le> n \<and> n \<le> 57)"

definition digitsValue :: "string \<Rightarrow> nat" where
  "digitsValue ds = foldl (\<lambda>acc c. 10 * acc + (of_char c - 48)) 0 ds"

definition stripTrailingZeros :: "string \<Rightarrow> string" where
  "stripTrailingZeros ds = rev (dropWhile (\<lambda>c. c = CHR ''0'') (rev ds))"

definition formatEther :: "nat \<Rightarrow> string" where
  "formatEther wei =
    (let whole = natToString (wei div 10 ^ 18);
         digits = natToString (wei mod 10 ^ 18);
         padded = replicate (18 - length digits) CHR ''0'' @ digits;
         fraction = stripTrailingZeros padded in
     whole @ ''.'' @ (if fraction = [] then ''0'' else fraction))"

text \<open>
  \<^verbatim>\<open>Number.prototype.toString\<close>, which \<^verbatim>\<open>string + number\<close> and \<^verbatim>\<open>n.toString()\<close> call. An
  integral value below \<open>10 ^ 21\<close> prints as its decimal digits. Every other finite value
  prints as the shortest digit string that reads back as the same double, which depends on
  the binary representation; that conversion is the parameter \<open>dtoa\<close>.
\<close>

definition js_number_to_string :: "(real \<Rightarrow> string) \<Rightarrow> jsnum \<Rightarrow> string" where
  "js_number_to_string dtoa x =
    (case x of
       NaN \<Rightarrow> ''NaN''
     | PosInf \<Rightarrow> ''Infinity''
     | NegInf \<Rightarrow> ''-Infinity''
     | Num r \<Rightarrow>
         if r = of_int \<lfloor>r\<rfloor> \<and> \<bar>r\<bar> < 10 ^ 21
         then (if r < 0 then ''-'' else []) @ natToString (nat \<bar>\<lfloor>r\<rfloor>\<bar>)
         else dtoa r)"

text \<open>
  The conversion of a string to a number (\<^verbatim>\<open>string / number\<close>): an optional sign, then
  \<^verbatim>\<open>Infinity\<close> or decimal digits with an optional fraction and exponent; the empty string
  is 0 and anything else is NaN. (White space and the hexadecimal, octal and binary forms
  are left out: the strings converted here start with the output of \<^verbatim>\<open>formatEther\<close>.)
\<close>

definition parseExponent :: "string \<Rightarrow> int option" where
  "parseExponent s =
    (case s of
       [] \<Rightarrow> Some 0
     | c # r \<Rightarrow>
        if c = CHR ''e'' \<or> c = CHR ''E'' then
          (let (neg, ds) = (case r of
                              [] \<Rightarrow> (False, [])
                            | d # r' \<Rightarrow> if d = CHR ''-'' then (True, r')
                                        else if d = CHR ''+'' then (False, r') else (False, r)) in
           if ds \<noteq> [] \<and> list_all isDigit ds
           then Some (if neg then - int (digitsValue ds) else int (digitsValue ds))
           else None)
        else None)"

definition scale10 :: "real \<Rightarrow> int \<Rightarrow> real" where
  "scale10 r e = (if 0 \<le> e then r * 10 ^ nat e else r / 10 ^ nat (- e))"

definition parseUnsignedDecimal :: "string \<Rightarrow> real option" where
  "parseUnsignedDecimal s =
    (let whole = takeWhile isDigit s; rest = dropWhile isDigit s;
         (fraction, rest') = (case rest of
                                [] \<Rightarrow> ([], [])
                              | c # r \<Rightarrow> if c = CHR ''.'' then (takeWhile isDigit r, dropWhile isDigit r)
                                         else ([], rest)) in
     if whole = [] \<and> fraction = [] then None
     else (case parseExponent rest' of
             None \<Rightarrow> None
           | Some e \<Rightarrow>
               Some (scale10 (real (digitsValue whole)
                        + real (digitsValue fraction) / 10 ^ length fraction) e)))"

definition js_string_to_number :: "string \<Rightarrow> jsnum" where
  "js_string_to_number s =
    (if s = [] then Num 0
     else (let (neg, body) = (case s of
                                c # r \<Rightarrow> if c = CHR ''-'' then (True, r)
                                           else if c = CHR ''+'' then (False, r) else (False, s)
                              | [] \<Rightarrow> (False, s)) in
           if body = ''Infinity'' then signedInf (\<not> neg)
           else (case parseUnsignedDecimal body of
                   None \<Rightarrow> NaN
                 | Some r \<Rightarrow> Num (if neg then - r else r))))"

text \<open>
  \<^verbatim>\<open>parseFloat\<close> reads the longest prefix of the text that is a decimal number and ignores
  the rest; it is NaN when there is none. (Leading white space is left out, as above.)
\<close>

definition exponentPrefix :: "string \<Rightarrow> int" where
  "exponentPrefix s =
    (case s of
       [] \<Rightarrow> 0
     | c # r \<Rightarrow>
        if c = CHR ''e'' \<or> c = CHR ''E'' then
          (let (neg, ds) = (case r of
                              [] \<Rightarrow> (False, [])
                            | d # r' \<Rightarrow> if d = CHR ''-'' then (True, r')
                                        else if d = CHR ''+'' then (False, r') else (False, r));
               digits = takeWhile isDigit ds in
           if neg then - int (digitsValue digits) else int (digitsValue digits))
        else 0)"

definition parseFloat :: "string \<Rightarrow> jsnum" where
  "parseFloat s =
    (let (neg, body) = (case s of
                          c # r \<Rightarrow> if c = CHR ''-'' then (True, r)
                                     else if c = CHR ''+'' then (False, r) else (False, s)
                        | [] \<Rightarrow> (False, s));
         whole = takeWhile isDigit body; rest = dropWhile isDigit body;
         (fraction, rest') = (case rest of
                                [] \<Rightarrow> ([], [])
                              | c # r \<Rightarrow> if c = CHR ''.'' then (takeWhile isDigit r, dropWhile isDigit r)
                                         else ([], rest)) in
     if startsWith body ''Infinity'' then signedInf (\<not> neg)
     else if whole = [] \<and> fraction = [] then NaN
     else (let r = scale10 (real (digitsValue whole)
                      + real (digitsValue fraction) / 10 ^ length fraction) (exponentPrefix rest') in
           Num (if neg then - r else r)))"

text \<open>The value in ether of an amount of wei.\<close>

definition etherNumber :: "nat \<Rightarrow> jsnum" where
  "etherNumber wei = Num (real wei / 10 ^ 18)"

text \<open>
  \<^verbatim>\<open>parseEther\<close> of ethers (\<^verbatim>\<open>parseFixed\<close> with 18 decimals): the text must match
  \<^verbatim>\<open>-?[0-9.]+\<close>, have at most one dot and at most 18 fraction digits after its trailing
  zeros are dropped; otherwise it throws.
\<close>

definition splitDot :: "string \<Rightarrow> string list" where
  "splitDot s =
     (let a = takeWhile (\<lambda>c. c \<noteq> CHR ''.'') s; r = dropWhile (\<lambda>c. c \<noteq> CHR ''.'') s in
      case r of
        [] \<Rightarrow> [a]
      | d # r' \<Rightarrow>
         (let b = takeWhile (\<lambda>c. c \<noteq> CHR ''.'') r'; r2 = dropWhile (\<lambda>c. c \<noteq> CHR ''.'') r' in
          if r2 = [] then [a, b] else [a, b, r2]))"

definition parseEther :: "string \<Rightarrow> exn + int" where
  "parseEther ether =
    (let neg = (case ether of [] \<Rightarrow> False | c # r \<Rightarrow> c = CHR ''-'');
         v = (if neg then tl ether else ether) in
     if v = [] \<or> \<not> list_all (\<lambda>c. isDigit c \<or> c = CHR ''.'') v
       then Inl (Error ''invalid decimal value'')
     else if v = ''.'' then Inl (Error ''missing value'')
     else
       (case splitDot v of
          [w] \<Rightarrow> Inr ((if neg then -1 else 1) * int (digitsValue w) * 10 ^ 18)
        | [w, f] \<Rightarrow>
            (let fraction = stripTrailingZeros (if f = [] then ''0'' else f) in
             if length fraction > 18
               then Inl (Error ''fractional component exceeds decimals'')
             else Inr ((if neg then -1 else 1)
                        * (int (digitsValue w) * 10 ^ 18
                           + int (digitsValue (fraction @ replicate (18 - length fraction) CHR ''0'')))))
        | _ \<Rightarrow> Inl (Error ''too many decimal points'')))"


section \<open>SandwichOptimizer\<close>

text \<open>
  \<^verbatim>\<open>calculateOptimalFrontRunAmount\<close>. \<^verbatim>\<open>x\<close>, \<^verbatim>\<open>y\<close> and \<^verbatim>\<open>v\<close> are the strings
  \<^verbatim>\<open>formatEther\<close> returns. The function is split where its comments split it: the
  unconstrained optimum, the clamp, the three-hop simulation and the conversion back to
  \<^verbatim>\<open>BigNumber\<close>.
\<close>

record front_run_params =
  reserveIn :: nat
  reserveOut :: nat
  victimAmount :: nat
  fee :: nat

record front_run_result =
  r_optimalFrontRunAmount :: int
  r_optimalBackRunAmount :: int
  r_expectedProfit :: int
  r_confidence :: jsnum

definition feeMultiplier :: "front_run_params \<Rightarrow> jsnum" where
  "feeMultiplier p = js_div (Num (real (fee p))) (Num 1000)"

definition unconstrainedOptimum :: "front_run_params \<Rightarrow> jsnum" where
  "unconstrainedOptimum p =
    (let x = formatEther (reserveIn p);
         v = formatEther (victimAmount p);
         sqrtTerm = js_sqrt (js_mul (js_mul (js_string_to_number x) (js_string_to_number v))
                       (feeMultiplier p)) in
     js_div (js_sub sqrtTerm (js_string_to_number x)) (feeMultiplier p))"

definition cappedOptimalAmount :: "front_run_params \<Rightarrow> jsnum" where
  "cappedOptimalAmount p =
    (let v = formatEther (victimAmount p);
         optimalFrontRunDecimal = js_max (Num 0) (unconstrainedOptimum p) in
     js_min optimalFrontRunDecimal (js_mul (js_string_to_number v) (Num (3 / 10))))"

text \<open>
  The simulation. In the denominator of the first hop the source writes
  \<^verbatim>\<open>x + cappedOptimalAmount * feeMultiplier\<close> with the string \<^verbatim>\<open>x\<close>: JavaScript's \<^verbatim>\<open>+\<close>
  concatenates the string with the printed number, and the division converts the result
  back to a number. The reserve update two lines below uses \<^verbatim>\<open>parseFloat(x) + ...\<close>, which
  adds.
\<close>

record simulation =
  frontRunOutput :: jsnum
  newX1 :: jsnum
  newY1 :: jsnum
  victimOutput :: jsnum
  newX2 :: jsnum
  newY2 :: jsnum
  backRunOutput :: jsnum

definition simulateSandwich :: "(real \<Rightarrow> string) \<Rightarrow> front_run_params \<Rightarrow> simulation" where
  "simulateSandwich dtoa p =
    (let x = formatEther (reserveIn p);
         y = formatEther (reserveOut p);
         v = js_string_to_number (formatEther (victimAmount p));
         fm = feeMultiplier p;
         c = cappedOptimalAmount p;
         out1 = js_div (js_mul (js_mul (js_string_to_number y) c) fm)
                  (js_string_to_number (x @ js_number_to_string dtoa (js_mul c fm)));
         x1 = js_add (parseFloat x) (js_mul c fm);
         y1 = js_sub (parseFloat y) out1;
         out2 = js_div (js_mul (js_mul y1 v) fm) (js_add x1 (js_mul v fm));
         x2 = js_add x1 (js_mul v fm);
         y2 = js_sub y1 out2;
         backRunInput = out1;
         out3 = js_div (js_mul (js_mul x2 backRunInput) fm) (js_add y2 (js_mul backRunInput fm)) in
     \<lparr>frontRunOutput = out1, newX1 = x1, newY1 = y1, victimOutput = out2,
      newX2 = x2, newY2 = y2, backRunOutput = out3\<rparr>)"

definition calculateOptimalFrontRunAmount ::
  "(real \<Rightarrow> string) \<Rightarrow> front_run_params \<Rightarrow> exn + front_run_result" where
  "calculateOptimalFrontRunAmount dtoa p =
    (let x = formatEther (reserveIn p);
         c = cappedOptimalAmount p;
         sim = simulateSandwich dtoa p;
         profitDecimal = js_sub (backRunOutput sim) c;
         priceImpactFrontRun = js_div c (js_string_to_number x);
         conf = js_max (Num 0) (js_min (Num 1) (js_sub (Num 1) (js_mul priceImpactFrontRun (Num 2)))) in
     bindE (parseEther (js_number_to_string dtoa c)) (\<lambda>front.
     bindE (parseEther (js_number_to_string dtoa (frontRunOutput sim))) (\<lambda>back.
     bindE (parseEther (js_number_to_string dtoa profitDecimal)) (\<lambda>profit.
     Inr \<lparr>r_optimalFrontRunAmount = front, r_optimalBackRunAmount = back,
          r_expectedProfit = profit, r_confidence = conf\<rparr>))))"

text \<open>
  \<^verbatim>\<open>getNetworkConditions\<close> (its \<^verbatim>\<open>catch\<close> returns defaults) and \<^verbatim>\<open>calculateOptimalGasPrice\<close>.
\<close>

record block =
  timestamp :: nat
  baseFeePerGas :: "nat option"

record provider_env =
  getGasPrice :: "exn + nat"
  getBlockNumber :: "exn + nat"
  getBlock :: "nat \<Rightarrow> exn + block option"
  clockSeconds :: nat

record network_conditions =
  nc_blockNumber :: nat
  nc_timestamp :: nat
  nc_gasPrice :: nat
  nc_baseFee :: nat

definition gwei :: nat where
  "gwei = 10 ^ 9"

definition getNetworkConditions :: "provider_env \<Rightarrow> network_conditions" where
  "getNetworkConditions env =
    (case bindE (getGasPrice env) (\<lambda>gp.
          bindE (getBlockNumber env) (\<lambda>bn.
          bindE (getBlock env bn) (\<lambda>b.
          case b of
            None \<Rightarrow> Inl (TypeError ''Cannot read properties of null'')
          | Some blk \<Rightarrow>
              Inr \<lparr>nc_blockNumber = bn, nc_timestamp = timestamp blk, nc_gasPrice = gp,
                   nc_baseFee = (case baseFeePerGas blk of None \<Rightarrow> gp | Some f \<Rightarrow> f)\<rparr>))) of
       Inr nc \<Rightarrow> nc
     | Inl e \<Rightarrow> \<lparr>nc_blockNumber = 0, nc_timestamp = clockSeconds env,
                  nc_gasPrice = 50 * gwei, nc_baseFee = 50 * gwei\<rparr>)"

definition minFrontRunGasPrice :: "nat \<Rightarrow> nat" where
  "minFrontRunGasPrice victimGasPrice = victimGasPrice * 115 div 100"

definition calculateOptimalGasPrice :: "nat \<Rightarrow> network_conditions \<Rightarrow> nat" where
  "calculateOptimalGasPrice victimGasPrice networkConditions =
    (let effectiveGasPrice = nc_gasPrice networkConditions * 110 div 100 in
     if minFrontRunGasPrice victimGasPrice > effectiveGasPrice
     then minFrontRunGasPrice victimGasPrice else effectiveGasPrice)"

text \<open>
  \<^verbatim>\<open>BigNumber.from\<close> applied to a JavaScript number, which \<^verbatim>\<open>mul\<close> calls on its argument:
  ethers throws a numeric fault (underflow) when the number has a fractional part and
  (overflow) when it is outside the safe-integer range.
\<close>

definition bn_from_number :: "real \<Rightarrow> exn + int" where
  "bn_from_number r =
    (if r \<noteq> of_int \<lfloor>r\<rfloor> then Inl (Error ''underflow'')
     else if \<bar>r\<bar> \<ge> 9007199254740991 then Inl (Error ''overflow'')
     else Inr \<lfloor>r\<rfloor>)"

text \<open>
  The configuration the optimizer reads: \<^verbatim>\<open>MIN_PROFIT_THRESHOLD\<close> as the wei amount
  \<^verbatim>\<open>parseEther\<close> makes of it (the default 0.005 is \<open>5 * 10 ^ 15\<close>) and \<^verbatim>\<open>MAX_GAS_PRICE\<close> in
  gwei. The constants of the constructor follow.
\<close>

record optimizer_config =
  minProfitThresholdWei :: int
  MAX_GAS_PRICE :: nat

definition BIPS_DIVISOR :: int where "BIPS_DIVISOR = 10000"
definition AAVE_FEE_BIPS :: int where "AAVE_FEE_BIPS = 9"
definition GAS_BUFFER :: real where "GAS_BUFFER = 12 / 10"

text \<open>
  \<^verbatim>\<open>calculateOptimalSandwichParams\<close>. \<open>sandwichLocals\<close> is the \<^verbatim>\<open>try\<close> block down to the
  capped gas price: the values of its local variables, or the exception thrown on the way.
  \<open>costsAndGasPrice\<close> is the part of it after the call of
  \<^verbatim>\<open>calculateOptimalFrontRunAmount\<close>.
\<close>

record sandwich_locals =
  l_result :: front_run_result
  l_flashLoanAmount :: int
  l_gasCost :: int
  l_flashLoanFee :: int
  l_netProfit :: int
  l_profitable :: bool
  l_optimalGasPrice :: nat
  l_finalGasPrice :: nat

definition costsAndGasPrice ::
  "optimizer_config \<Rightarrow> network_conditions \<Rightarrow> nat \<Rightarrow> front_run_result \<Rightarrow> exn + sandwich_locals" where
  "costsAndGasPrice cfg networkConditions victimGasPrice result =
    bindE (bn_div (r_optimalFrontRunAmount result * 12) 10) (\<lambda>flashLoan.
    let estimatedGasUsed = 600000;
        gasCost = int (nc_gasPrice networkConditions) * estimatedGasUsed in
    bindE (bn_div (flashLoan * AAVE_FEE_BIPS) BIPS_DIVISOR) (\<lambda>flashLoanFee.
    let totalCost = gasCost + flashLoanFee;
        netProfit = r_expectedProfit result - totalCost;
        profitable = (netProfit > minProfitThresholdWei cfg);
        optimalGasPrice = calculateOptimalGasPrice victimGasPrice networkConditions;
        maxGasPrice = MAX_GAS_PRICE cfg * gwei;
        finalGasPrice = (if optimalGasPrice > maxGasPrice then maxGasPrice else optimalGasPrice) in
    Inr \<lparr>l_result = result, l_flashLoanAmount = flashLoan, l_gasCost = gasCost,
         l_flashLoanFee = flashLoanFee, l_netProfit = netProfit, l_profitable = profitable,
         l_optimalGasPrice = optimalGasPrice, l_finalGasPrice = finalGasPrice\<rparr>))"

definition sandwichLocals ::
  "optimizer_config \<Rightarrow> (real \<Rightarrow> string) \<Rightarrow> provider_env \<Rightarrow> opportunity \<Rightarrow> exn + sandwich_locals" where
  "sandwichLocals cfg dtoa env opp =
    (let networkConditions = getNetworkConditions env in
     case path opp of
       [] \<Rightarrow> Inl (TypeError ''Cannot read properties of undefined'')
     | tokenIn # rest \<Rightarrow>
        (let tokenAIs0 = (toLowerCase tokenIn = toLowerCase (token0 (pairInfo opp)));
             rIn = (if tokenAIs0 then reserve0 (pairInfo opp) else reserve1 (pairInfo opp));
             rOut = (if tokenAIs0 then reserve1 (pairInfo opp) else reserve0 (pairInfo opp)) in
         bindE (calculateOptimalFrontRunAmount dtoa
                  \<lparr>reserveIn = rIn, reserveOut = rOut, victimAmount = amountIn opp, fee = 997\<rparr>)
           (costsAndGasPrice cfg networkConditions (opp_gasPrice opp))))"

text \<open>
  The object returned. The \<^verbatim>\<open>return\<close> expression computes
  \<^verbatim>\<open>estimatedGasUsed.mul(this.GAS_BUFFER).div(10)\<close> with \<^verbatim>\<open>GAS_BUFFER = 1.2\<close> inside the
  \<^verbatim>\<open>try\<close>; the \<^verbatim>\<open>catch\<close> returns an object with only \<^verbatim>\<open>profitable: false\<close> and
  \<^verbatim>\<open>confidence: 0\<close>, whose other fields are undefined.
\<close>

record sandwich_params =
  sp_flashLoanAmount :: "int option"
  sp_frontRunAmount :: "int option"
  sp_backRunAmount :: "int option"
  sp_expectedProfit :: "int option"
  sp_netProfit :: "int option"
  sp_gasPrice :: "nat option"
  sp_gasLimit :: "int option"
  sp_profitable :: bool
  sp_confidence :: jsnum

definition notProfitable :: sandwich_params where
  "notProfitable =
    \<lparr>sp_flashLoanAmount = None, sp_frontRunAmount = None, sp_backRunAmount = None,
     sp_expectedProfit = None, sp_netProfit = None, sp_gasPrice = None, sp_gasLimit = None,
     sp_profitable = False, sp_confidence = Num 0\<rparr>"

definition calculateOptimalSandwichParams ::
  "optimizer_config \<Rightarrow> (real \<Rightarrow> string) \<Rightarrow> provider_env \<Rightarrow> opportunity \<Rightarrow> sandwich_params" where
  "calculateOptimalSandwichParams cfg dtoa env opp =
    (case bindE (sandwichLocals cfg dtoa env opp) (\<lambda>l.
          bindE (bn_from_number GAS_BUFFER) (\<lambda>buffer.
          bindE (bn_div (600000 * buffer) 10) (\<lambda>gasLimit'.
          Inr \<lparr>sp_flashLoanAmount = Some (l_flashLoanAmount l),
               sp_frontRunAmount = Some (r_optimalFrontRunAmount (l_result l)),
               sp_backRunAmount = Some (r_optimalBackRunAmount (l_result l)),
               sp_expectedProfit = Some (r_expectedProfit (l_result l)),
               sp_netProfit = Some (l_netProfit l),
               sp_gasPrice = Some (l_finalGasPrice l),
               sp_gasLimit = Some gasLimit',
               sp_profitable = l_profitable l,
               sp_confidence = r_confidence (l_result l)\<rparr>))) of
       Inr r \<Rightarrow> r
     | Inl e \<Rightarrow> notProfitable)"


text \<open>
  \<^verbatim>\<open>processOpportunities\<close>, without the statistics. \<open>processOpportunity\<close> is the body
  of its \<^verbatim>\<open>for\<close> loop for one pending entry: an expired or unprofitable opportunity is
  dropped, a profitable one is dispatched; in each of these cases the entry leaves the
  pending map and its hash joins the processed set.
\<close>

definition processOpportunity ::
  "optimizer_config \<Rightarrow> (real \<Rightarrow> string) \<Rightarrow> provider_env \<Rightarrow> executor_env \<Rightarrow> string \<Rightarrow> bool
     \<Rightarrow> int \<Rightarrow> int \<Rightarrow> string \<Rightarrow> opportunity \<times> int
     \<Rightarrow> opportunity processor \<times> executor \<Rightarrow> opportunity processor \<times> executor" where
  "processOpportunity cfg dtoa penv xenv WETH_ADDRESS USE_DIRECT_ETH now opportunityTimeout txHash
       entry st =
    (let (opp, detected) = entry;
         (proc, ex) = st;
         done = proc\<lparr>pendingOpportunities := map_delete txHash (pendingOpportunities proc),
                      processedOpportunities := insert txHash (processedOpportunities proc)\<rparr> in
     if now - detected > opportunityTimeout then (done, ex)
     else
       (let sandwichParams = calculateOptimalSandwichParams cfg dtoa penv opp in
        if \<not> sp_profitable sandwichParams then (done, ex)
        else
          (case (sp_flashLoanAmount sandwichParams, sp_frontRunAmount sandwichParams,
                 sp_backRunAmount sandwichParams, sp_gasPrice sandwichParams,
                 sp_gasLimit sandwichParams) of
             (Some fl, Some fr, Some br, Some gp, Some gl) \<Rightarrow>
               (done, snd (executeSandwich WETH_ADDRESS USE_DIRECT_ETH xenv (path opp)
                             (int (amountIn opp))
                             \<lparr>flashLoanAmount = fl, frontRunAmount = fr, backRunAmount = br,
                              ex_gasPrice = int gp, gasLimit = gl\<rparr> ex))
           | _ \<Rightarrow> (done, ex))))"

text \<open>
  One pass of the \<^verbatim>\<open>while\<close> loop of \<^verbatim>\<open>processOpportunities\<close>. The pass first asks the
  provider for the current gas price (\<open>currentGasPrice\<close> is the answer of that call). When
  the call rejects, the outer \<^verbatim>\<open>catch\<close> logs the error, and when the price is above
  \<^verbatim>\<open>MAX_GAS_PRICE\<close> gwei the pass waits and starts over: in both cases no pending entry
  is looked at. Otherwise the entries of the pending map are processed in insertion order.
\<close>

definition processOpportunities ::
  "optimizer_config \<Rightarrow> (real \<Rightarrow> string) \<Rightarrow> provider_env \<Rightarrow> executor_env \<Rightarrow> string \<Rightarrow> bool
     \<Rightarrow> int \<Rightarrow> int \<Rightarrow> exn + nat
     \<Rightarrow> opportunity processor \<times> executor \<Rightarrow> opportunity processor \<times> executor" where
  "processOpportunities cfg dtoa penv xenv WETH_ADDRESS USE_DIRECT_ETH now opportunityTimeout
       currentGasPrice st =
    (case currentGasPrice of
       Inl e \<Rightarrow> st
     | Inr price \<Rightarrow>
         if price > MAX_GAS_PRICE cfg * gwei then st
         else foldl (\<lambda>st' (txHash, entry).
                       processOpportunity cfg dtoa penv xenv WETH_ADDRESS USE_DIRECT_ETH now
                         opportunityTimeout txHash entry st')
                st (pendingOpportunities (fst st)))"

section \<open>Concrete inputs\<close>

text \<open>
  Scenario A of the specification: reserves of 1000 ether each, a victim input of 10 ether,
  fee 997/1000; and an opportunity on that pool whose victim bids 100 gwei and 1 wei.
\<close>

definition scenarioA :: front_run_params where
  "scenarioA = \<lparr>reserveIn = 1000 * 10 ^ 18, reserveOut = 1000 * 10 ^ 18,
                 victimAmount = 10 * 10 ^ 18, fee = 997\<rparr>"

definition scenarioAOpportunity :: opportunity where
  "scenarioAOpportunity =
    \<lparr>victimTx = ''0x01'', router = ''0x7a25'', path = [''0xc02a'', ''0xdac1''],
     amountIn = 10 * 10 ^ 18, amountOutMin = Some 0, deadline = Some 1700000600,
     pairAddress = ''0x0d4a'',
     pairInfo = \<lparr>token0 = ''0xc02a'', token1 = ''0xdac1'',
                 reserve0 = 1000 * 10 ^ 18, reserve1 = 1000 * 10 ^ 18\<rparr>,
     optimalFrontRunAmount = 2 * 10 ^ 18, optimalBackRunAmount = 19 * 10 ^ 17,
     estimatedProfit = 2 * 10 ^ 16, confidence = 49 / 50,
     opp_gasPrice = 100 * gwei + 1, suggestedGasPrice = 115 * 10 ^ 9 + 1,
     submittedTime = 1700000000000\<rparr>"


text \<open>A pool of 1 ether on each side and a victim input of 997000 ether.\<close>

definition bigVictim :: front_run_params where
  "bigVictim = \<lparr>reserveIn = 10 ^ 18, reserveOut = 10 ^ 18,
                 victimAmount = 997000 * 10 ^ 18, fee = 997\<rparr>"

text \<open>A provider that answers 50 gwei, and the default configuration.\<close>

definition exampleProvider :: provider_env where
  "exampleProvider =
    \<lparr>getGasPrice = Inr (50 * gwei), getBlockNumber = Inr 18000000,
     getBlock = (\<lambda>n. Inr (Some \<lparr>timestamp = 1700000000, baseFeePerGas = Some (40 * gwei)\<rparr>)),
     clockSeconds = 1700000000\<rparr>"

definition defaultConfig :: optimizer_config where
  "defaultConfig = \<lparr>minProfitThresholdWei = 5 * 10 ^ 15, MAX_GAS_PRICE = 100\<rparr>"

section \<open>Overlapping dispatches\<close>

text \<open>
  \<^verbatim>\<open>executeSandwich\<close> is an \<^verbatim>\<open>async\<close> function. JavaScript runs it without interruption
  between two \<^verbatim>\<open>await\<close>s, and the segments of several calls that are in progress at once
  interleave in any order. For the nonce the segments of one call are:
  from the entry to the first \<^verbatim>\<open>await\<close> (\<^verbatim>\<open>refreshNonce\<close> reads the clock, tests whether a
  refresh is due and, if so, asks the chain and waits); the continuation of
  \<^verbatim>\<open>refreshNonce\<close> when the chain has answered (it stores the answer and the clock value
  read before, or throws); and the continuation of \<^verbatim>\<open>executeSandwich\<close> after
  \<^verbatim>\<open>await this.refreshNonce()\<close>, which takes the nonce with \<^verbatim>\<open>this.currentNonce++\<close>.
\<close>

datatype call_state = NotStarted | AwaitingCount int | AfterRefresh | Assigned nat | Failed

datatype event = Enter int | CountSettles "exn + nat" | Resume

fun segment :: "executor \<Rightarrow> call_state \<Rightarrow> event \<Rightarrow> executor \<times> call_state" where
  "segment ex NotStarted (Enter now) =
     (if noNonce (currentNonce ex) \<or> now - lastNonceRefresh ex > nonceRefreshInterval ex
      then (ex, AwaitingCount now) else (ex, AfterRefresh))"
| "segment ex (AwaitingCount now) (CountSettles (Inr n)) =
     (ex\<lparr>currentNonce := Some n, lastNonceRefresh := now\<rparr>, AfterRefresh)"
| "segment ex (AwaitingCount now) (CountSettles (Inl e)) =
     (if noNonce (currentNonce ex) then (ex, Failed) else (ex, AfterRefresh))"
| "segment ex AfterRefresh Resume =
     (let nonce = (case currentNonce ex of None \<Rightarrow> 0 | Some n \<Rightarrow> n) in
      (ex\<lparr>currentNonce := Some (nonce + 1)\<rparr>, Assigned nonce))"
| "segment ex pc ev = (ex, pc)"

definition step :: "executor \<times> call_state list \<Rightarrow> nat \<times> event \<Rightarrow> executor \<times> call_state list" where
  "step st iev =
    (let (ex, pcs) = st; (i, ev) = iev in
     if i < length pcs
     then (let (ex', pc') = segment ex (pcs ! i) ev in (ex', pcs[i := pc']))
     else st)"

definition runDispatches :: "executor \<Rightarrow> nat \<Rightarrow> (nat \<times> event) list \<Rightarrow> executor \<times> call_state list" where
  "runDispatches ex n evs = foldl step (ex, replicate n NotStarted) evs"

fun nonceOf :: "call_state \<Rightarrow> nat list" where
  "nonceOf (Assigned n) = [n]"
| "nonceOf pc = []"

definition assignedNonces :: "call_state list \<Rightarrow> nat list" where
  "assignedNonces pcs = concat (map nonceOf pcs)"

definition noRefreshDue :: "executor \<Rightarrow> (nat \<times> event) list \<Rightarrow> bool" where
  "noRefreshDue ex evs =
     list_all (\<lambda>iev. case snd iev of
                        Enter now \<Rightarrow> now - lastNonceRefresh ex \<le> nonceRefreshInterval ex
                      | _ \<Rightarrow> True) evs"

text \<open>The invariant of a run in which no refresh is due.\<close>

definition settled :: "call_state \<Rightarrow> bool" where
  "settled pc = (case pc of AwaitingCount t \<Rightarrow> False | Failed \<Rightarrow> False | _ \<Rightarrow> True)"

definition consecutive :: "nat \<Rightarrow> executor \<Rightarrow> executor \<times> call_state list \<Rightarrow> bool" where
  "consecutive base ex0 st \<longleftrightarrow>
     (let (ex, pcs) = st in
      currentNonce ex = Some (base + length (assignedNonces pcs))
      \<and> lastNonceRefresh ex = lastNonceRefresh ex0
      \<and> nonceRefreshInterval ex = nonceRefreshInterval ex0
      \<and> list_all settled pcs
      \<and> mset (assignedNonces pcs) = mset [base ..< base + length (assignedNonces pcs)])"


section \<open>Properties of the token detector\<close>

lemma detectLoop_sigs:
  "detectLoop code a tokenDetectorSigs =
     (if includesStr code ''a9059cbb'' then Inl (TypeError ''logs.filter is not a function'')
      else if includesStr code ''4a15e35d'' then Inr True
      else if includesStr code ''46a4e0ed'' then Inr True
      else Inr False)"
  by (simp add: tokenDetectorSigs_def slice_def)

lemma detectTokenFees_never_throws:
  "\<exists>b. detectTokenFees getCode a = Inr b"
  by (auto simp: detectTokenFees_def split: sum.splits)

text \<open>
  Claim C10. The fee-on-transfer entry never classifies a token as having transfer fees:
  \<^verbatim>\<open>hasFee\<close> is called with the token address, a string, and throws; the \<^verbatim>\<open>catch\<close> of
  \<^verbatim>\<open>detectTokenFees\<close> turns the exception into false. So \<^verbatim>\<open>detectTokenFees\<close> answers true
  only when the bytecode contains one of the two rebase selectors (and, the transfer entry
  being tried first, only when it does not contain the transfer selector).
\<close>

theorem detectTokenFees_true_only_on_rebase_selector:
  "transferHasFee (JString a) = Inl (TypeError ''logs.filter is not a function'')
   \<and> detectTokenFees getCode a =
       Inr (case getCode a of
              Inl e \<Rightarrow> False
            | Inr code \<Rightarrow> \<not> includesStr code ''a9059cbb''
                 \<and> (includesStr code ''4a15e35d'' \<or> includesStr code ''46a4e0ed''))
   \<and> (detectTokenFees getCode a = Inr True \<longrightarrow>
        (\<exists>code. getCode a = Inr code
           \<and> (includesStr code ''4a15e35d'' \<or> includesStr code ''46a4e0ed'')))"
  by (auto simp: detectTokenFees_def detectLoop_sigs split: sum.splits)

theorem detectTokenFees_true_only_on_rebase_selector_witness:
  "detectTokenFees (\<lambda>a. Inr ''0x6080604a15e35d00'') ''0xabc'' = Inr True
   \<and> (\<exists>code. (\<lambda>a. Inr ''0x6080604a15e35d00'' :: exn + string) ''0xabc'' = Inr code
           \<and> (includesStr code ''4a15e35d'' \<or> includesStr code ''46a4e0ed''))
   \<and> detectTokenFees (\<lambda>a. Inr ''0xa9059cbb0046a4e0ed'') ''0xabc'' = Inr False"
  using detectTokenFees_true_only_on_rebase_selector
          [of "''0xabc''" "\<lambda>a. Inr ''0x6080604a15e35d00''"]
        detectTokenFees_true_only_on_rebase_selector
          [of "''0xabc''" "\<lambda>a. Inr ''0xa9059cbb0046a4e0ed''"]
  by simp

text \<open>
  Claim C6. \<^verbatim>\<open>isTokenBlacklisted\<close> answers true for a token of the static list and for one
  the heuristic detects, but it does not fail closed: when the detection itself errors
  (here: \<^verbatim>\<open>provider.getCode\<close> rejects; or the bytecode holds the transfer selector, so that
  \<^verbatim>\<open>hasFee\<close> throws, even for a token that also has a rebase selector), \<^verbatim>\<open>detectTokenFees\<close>
  has already turned the error into false, the \<^verbatim>\<open>catch\<close> of \<^verbatim>\<open>isTokenBlacklisted\<close> is never
  reached, and the answer is false.
\<close>

theorem isTokenBlacklisted_fails_open:
  "isTokenBlacklisted (\<lambda>a. Inl (Error ''could not detect network'')) {} ''0xAbC1'' = (False, {})
   \<and> isTokenBlacklisted (\<lambda>a. Inr ''0xa9059cbb0046a4e0ed'') {} ''0xAbC1'' = (False, {})"
  by (simp add: isTokenBlacklisted_def detectTokenFees_def detectLoop_sigs)

section \<open>Properties of the classifier\<close>

lemma routerInterfaces_fold_Some:
  "fold (\<lambda>d m. m(toLowerCase (dex_address d) \<mapsto> dex_parse d)) dexes m0 k = Some f
   \<Longrightarrow> m0 k = Some f \<or> (\<exists>d\<in>set dexes. toLowerCase (dex_address d) = k \<and> f = dex_parse d)"
  by (induction dexes arbitrary: m0) (fastforce split: if_splits)+

lemma routerInterfaces_Some:
  "routerInterfaces dexes k = Some f
   \<Longrightarrow> \<exists>d\<in>set dexes. toLowerCase (dex_address d) = k \<and> f = dex_parse d"
  unfolding routerInterfaces_def by (drule routerInterfaces_fold_Some) simp

lemma analyzePendingTransaction_never_throws:
  "\<exists>res. analyzePendingTransaction dexes WETH minSize env t = Inr res"
  by (auto simp: analyzePendingTransaction_def split: option.splits sum.splits)

text \<open>
  Claim C5. A pending transaction sent to a known router whose call data the router's
  interface cannot decode (the selector is not in the ABI, or the arguments are malformed:
  \<^verbatim>\<open>parseTransaction\<close> throws) is classified as null; no exception reaches the caller.
\<close>

theorem analyzePendingTransaction_undecodable_null:
  assumes "to t = Some r" and "isSupportedRouter dexes r"
    and "\<forall>d\<in>set dexes. toLowerCase (dex_address d) = toLowerCase r \<longrightarrow> isl (dex_parse d (data t))"
  shows "analyzePendingTransaction dexes WETH minSize env t = Inr None"
proof (cases "routerInterfaces dexes (toLowerCase r)")
  case None
  with assms(1) show ?thesis by (simp add: analyzePendingTransaction_def)
next
  case (Some f)
  from routerInterfaces_Some [OF Some] assms(3) have "isl (f (data t))" by auto
  then obtain e where "f (data t) = Inl e" by (cases "f (data t)") auto
  with Some assms(1) show ?thesis by (simp add: analyzePendingTransaction_def)
qed

theorem analyzePendingTransaction_undecodable_null_witness:
  "analyzePendingTransaction
     [\<lparr>dex_address = ''0x7a250d5630B4cF539739dF2C5dAcb4c659F2488D'', dex_factory = ''0x5C69'',
        dex_initCodeHash = ''0x96e8'',
        dex_parse = (\<lambda>d. Inl (Error ''no matching function''))\<rparr>]
     ''0xC02a'' 5
     \<lparr>tm_isTokenBlacklisted = (\<lambda>a. Inr False),
      tm_checkPairLiquidity = (\<lambda>a b. Inr \<lparr>isLiquid = True, isTooDeep = False\<rparr>),
      tm_getTokenValueInETH = (\<lambda>a n. Inr n),
      tm_getPairReserves = (\<lambda>q a b. Inr None),
      create2PairAddress = (\<lambda>a b r. Inr ''0x0d4a''),
      dateNow = 1700000000000\<rparr>
     \<lparr>hash = ''0x01'', to = Some ''0x7a250d5630b4cf539739df2c5dacb4c659f2488d'',
      data = ''0xdeadbeef'', txvalue = 0, gasPrice = 50\<rparr> = Inr None"
proof -
  have L: "toLowerCase ''0x7a250d5630B4cF539739dF2C5dAcb4c659F2488D''
             = toLowerCase ''0x7a250d5630b4cf539739df2c5dacb4c659f2488d''"
    by code_simp
  show ?thesis
    by (rule analyzePendingTransaction_undecodable_null
          [where r = "''0x7a250d5630b4cf539739df2c5dacb4c659f2488d''"])
       (simp_all add: isSupportedRouter_def L)
qed

section \<open>Properties of the nonce counter\<close>

lemma executeWithETH_state:
  "sameButSent nonce s (snd (executeWithETH env tB fr br va gp gl dl nonce s))"
  by (auto simp: sameButSent_def executeWithETH_def bindE_def submitAndTrack_def Let_def bn_div_def
           split: sum.splits)

lemma executeWithFlashLoan_state:
  "sameButSent nonce s (snd (executeWithFlashLoan env tA tB fl fr br va gp gl dl nonce s))"
  by (auto simp: sameButSent_def executeWithFlashLoan_def bindE_def submitAndTrack_def Let_def bn_div_def
           split: sum.splits)

lemma executeSandwich_after_refresh:
  assumes "refreshNonce env s = Inr s1"
  shows "sameButSent (case currentNonce s1 of None \<Rightarrow> 0 | Some n \<Rightarrow> n)
           (s1\<lparr>currentNonce := Some ((case currentNonce s1 of None \<Rightarrow> 0 | Some n \<Rightarrow> n) + 1)\<rparr>)
           (snd (executeSandwich W U env p a params s))"
proof (cases p)
  case Nil
  with assms show ?thesis by (simp add: executeSandwich_def Let_def sameButSent_def)
next
  case (Cons tokenA rest)
  show ?thesis
  proof (cases rest)
    case Nil
    with Cons assms show ?thesis by (simp add: executeSandwich_def Let_def sameButSent_def)
  next
    case (Cons tokenB rest')
    with \<open>p = tokenA # rest\<close> assms show ?thesis
      by (simp add: executeSandwich_def Let_def executeWithETH_state executeWithFlashLoan_state)
  qed
qed

text \<open>
  Claim C7. The refresh interval is 30 seconds. A dispatch starts with the refresh: when no
  nonce is held, or more than the interval has passed since the last refresh, and the chain
  answers \<open>n\<close>, the counter is set to \<open>n\<close> and the refresh time to now, and the dispatch
  goes on with nonce \<open>n\<close> (the state it leaves is the refreshed one with the counter at
  \<open>n + 1\<close> and at most one submission, made with nonce \<open>n\<close>). When no nonce is held and the
  chain does not answer, the dispatch returns a failure and leaves the executor as it was:
  nothing is submitted.
\<close>

theorem nonce_refreshed_before_dispatch_and_fails_closed:
  "nonceRefreshInterval newSandwichExecutor = 30000
   \<and> ((currentNonce s = None \<or> ex_now env - lastNonceRefresh s > nonceRefreshInterval s)
        \<and> getTransactionCount env = Inr n \<longrightarrow>
       refreshNonce env s = Inr (s\<lparr>currentNonce := Some n, lastNonceRefresh := ex_now env\<rparr>)
       \<and> sameButSent n (s\<lparr>lastNonceRefresh := ex_now env, currentNonce := Some (n + 1)\<rparr>)
            (snd (executeSandwich W U env p a params s)))
   \<and> (currentNonce s = None \<and> getTransactionCount env = Inl e \<longrightarrow>
       executeSandwich W U env p a params s =
         (Failure ''Failed to get nonce and no previous nonce available'', s))"
proof (intro conjI impI)
  show "nonceRefreshInterval newSandwichExecutor = 30000"
    by (simp add: newSandwichExecutor_def)
next
  assume A: "(currentNonce s = None \<or> ex_now env - lastNonceRefresh s > nonceRefreshInterval s)
        \<and> getTransactionCount env = Inr n"
  then show R: "refreshNonce env s = Inr (s\<lparr>currentNonce := Some n, lastNonceRefresh := ex_now env\<rparr>)"
    by (auto simp: refreshNonce_def noNonce_def Let_def)
  from executeSandwich_after_refresh [OF R, of W U p a params]
  show "sameButSent n (s\<lparr>lastNonceRefresh := ex_now env, currentNonce := Some (n + 1)\<rparr>)
            (snd (executeSandwich W U env p a params s))"
    by simp
next
  assume "currentNonce s = None \<and> getTransactionCount env = Inl e"
  then show "executeSandwich W U env p a params s =
         (Failure ''Failed to get nonce and no previous nonce available'', s)"
    by (simp add: executeSandwich_def refreshNonce_def noNonce_def Let_def)
qed

theorem nonce_refreshed_before_dispatch_and_fails_closed_witness:
  "refreshNonce \<lparr>ex_now = 100000, getTransactionCount = Inr 7,
        contractSend = (\<lambda>sub. Inr ''0xbeef''), trackTransaction = (\<lambda>h. Inl ''Transaction timeout'')\<rparr>
      newSandwichExecutor
     = Inr (newSandwichExecutor\<lparr>currentNonce := Some 7, lastNonceRefresh := 100000\<rparr>)
   \<and> sameButSent 7 (newSandwichExecutor\<lparr>lastNonceRefresh := 100000, currentNonce := Some 8\<rparr>)
        (snd (executeSandwich ''0xc02a'' False
           \<lparr>ex_now = 100000, getTransactionCount = Inr 7,
             contractSend = (\<lambda>sub. Inr ''0xbeef''), trackTransaction = (\<lambda>h. Inl ''Transaction timeout'')\<rparr>
           [''0xc02a'', ''0xdac1''] 1000
           \<lparr>flashLoanAmount = 12, frontRunAmount = 10, backRunAmount = 9, ex_gasPrice = 50, gasLimit = 720000\<rparr>
           newSandwichExecutor))
   \<and> executeSandwich ''0xc02a'' False
        \<lparr>ex_now = 100000, getTransactionCount = Inl (Error ''timeout''),
          contractSend = (\<lambda>sub. Inr ''0xbeef''), trackTransaction = (\<lambda>h. Inl ''Transaction timeout'')\<rparr>
        [''0xc02a'', ''0xdac1''] 1000
        \<lparr>flashLoanAmount = 12, frontRunAmount = 10, backRunAmount = 9, ex_gasPrice = 50, gasLimit = 720000\<rparr>
        newSandwichExecutor
      = (Failure ''Failed to get nonce and no previous nonce available'', newSandwichExecutor)"
  using nonce_refreshed_before_dispatch_and_fails_closed
     [where s = newSandwichExecutor and n = 7 and W = "''0xc02a''" and U = False
        and p = "[''0xc02a'', ''0xdac1'']" and a = 1000
        and params = "\<lparr>flashLoanAmount = 12, frontRunAmount = 10, backRunAmount = 9, ex_gasPrice = 50, gasLimit = 720000\<rparr>"
        and env = "\<lparr>ex_now = 100000, getTransactionCount = Inr 7,
             contractSend = (\<lambda>sub. Inr ''0xbeef''), trackTransaction = (\<lambda>h. Inl ''Transaction timeout'')\<rparr>"]
    nonce_refreshed_before_dispatch_and_fails_closed
     [where s = newSandwichExecutor and e = "Error ''timeout''" and W = "''0xc02a''" and U = False
        and p = "[''0xc02a'', ''0xdac1'']" and a = 1000
        and params = "\<lparr>flashLoanAmount = 12, frontRunAmount = 10, backRunAmount = 9, ex_gasPrice = 50, gasLimit = 720000\<rparr>"
        and env = "\<lparr>ex_now = 100000, getTransactionCount = Inl (Error ''timeout''),
             contractSend = (\<lambda>sub. Inr ''0xbeef''), trackTransaction = (\<lambda>h. Inl ''Transaction timeout'')\<rparr>"]
  by (simp add: newSandwichExecutor_def)

section \<open>Properties of the in-flight set\<close>

lemma map_set_keys:
  "map fst (map_set k v m) = (if k \<in> set (map fst m) then map fst m else map fst m @ [k])"
  by (induction m) (auto split: if_splits)

lemma map_set_distinct: "distinct (map fst m) \<Longrightarrow> distinct (map fst (map_set k v m))"
  by (simp add: map_set_keys)

lemma map_get_map_set: "map_get (map_set k v m) k = Some v"
  by (induction m) auto

lemma map_set_length: "k \<in> set (map fst m) \<Longrightarrow> length (map_set k v m) = length m"
  using arg_cong [OF map_set_keys, of length k v m] by simp

lemma entriesFor_distinct: "distinct (map fst m) \<Longrightarrow> entriesFor k m \<le> 1"
  unfolding entriesFor_def
  by (induction m) (auto simp: filter_empty_conv image_iff)

lemma addOpportunity_distinct:
  "distinct (map fst (pendingOpportunities s))
   \<Longrightarrow> distinct (map fst (pendingOpportunities (snd (addOpportunity now h opp s))))"
  by (simp add: addOpportunity_def map_set_distinct)

lemma addAll_distinct:
  "distinct (map fst (pendingOpportunities s))
   \<Longrightarrow> distinct (map fst (pendingOpportunities (addAll ds s)))"
  by (induction ds s rule: addAll.induct) (simp_all add: addOpportunity_distinct)

text \<open>
  Claim C8, as the code has it. The in-flight map never holds more than one entry for an
  identifier. A detection of an identifier that has not been processed yet is admitted
  and its entry stored; when an entry for that identifier is already in flight, the new
  opportunity and the new detection time take its place (the number of entries stays the
  same). The detection is a no-op only once the identifier is in the processed set; the
  observer likewise skips a notification whose identifier is in its \<^verbatim>\<open>processedTxs\<close>.
\<close>

theorem in_flight_entry_unique_and_replaced:
  "entriesFor h (pendingOpportunities (addAll ds newOpportunityProcessor)) \<le> 1
   \<and> (h \<notin> processedOpportunities s \<longrightarrow>
        fst (addOpportunity now h opp s)
        \<and> map_get (pendingOpportunities (snd (addOpportunity now h opp s))) h = Some (opp, now))
   \<and> (h \<in> set (map fst (pendingOpportunities s)) \<longrightarrow>
        length (pendingOpportunities (snd (addOpportunity now h opp s)))
          = length (pendingOpportunities s))
   \<and> (h \<in> processedOpportunities s \<longrightarrow> addOpportunity now h opp s = (False, s))
   \<and> (h \<in> set (processedTxs ob) \<longrightarrow> onPendingNotification detect now h ob = ob)"
proof -
  have "distinct (map fst (pendingOpportunities (addAll ds (newOpportunityProcessor :: 'a processor))))"
    by (rule addAll_distinct) (simp add: newOpportunityProcessor_def)
  then have "entriesFor h (pendingOpportunities (addAll ds newOpportunityProcessor)) \<le> 1"
    by (rule entriesFor_distinct)
  moreover have "h \<in> set (map fst (pendingOpportunities s)) \<longrightarrow>
        length (pendingOpportunities (snd (addOpportunity now h opp s)))
          = length (pendingOpportunities s)"
    by (simp add: addOpportunity_def map_set_length)
  ultimately show ?thesis
    by (simp add: addOpportunity_def map_get_map_set onPendingNotification_def)
qed

theorem in_flight_entry_unique_and_replaced_witness:
  "entriesFor ''0xaa''
      (pendingOpportunities (addAll [(1000, ''0xaa'', ''first''), (2000, ''0xaa'', ''second'')]
         newOpportunityProcessor)) \<le> 1
   \<and> fst (addOpportunity 2000 ''0xaa'' ''second''
        \<lparr>pendingOpportunities = [(''0xaa'', (''first'', 1000))], processedOpportunities = {}\<rparr>)
   \<and> map_get (pendingOpportunities (snd (addOpportunity 2000 ''0xaa'' ''second''
        \<lparr>pendingOpportunities = [(''0xaa'', (''first'', 1000))], processedOpportunities = {}\<rparr>)))
        ''0xaa'' = Some (''second'', 2000)
   \<and> length (pendingOpportunities (snd (addOpportunity 2000 ''0xaa'' ''second''
        \<lparr>pendingOpportunities = [(''0xaa'', (''first'', 1000))], processedOpportunities = {}\<rparr>))) = 1
   \<and> addOpportunity 2000 ''0xaa'' ''second''
        \<lparr>pendingOpportunities = [], processedOpportunities = {''0xaa''}\<rparr>
       = (False, \<lparr>pendingOpportunities = [], processedOpportunities = {''0xaa''}\<rparr>)
   \<and> onPendingNotification (\<lambda>h. Some ''second'') 2000 ''0xaa''
        \<lparr>obs_pendingOpportunities = [(''0xaa'', (''first'', 1000))], processedTxs = [''0xaa'']\<rparr>
       = \<lparr>obs_pendingOpportunities = [(''0xaa'', (''first'', 1000))], processedTxs = [''0xaa'']\<rparr>"
  using in_flight_entry_unique_and_replaced
     [where h = "''0xaa''" and now = 2000 and opp = "''second''"
        and ds = "[(1000, ''0xaa'', ''first''), (2000, ''0xaa'', ''second'')]"
        and s = "\<lparr>pendingOpportunities = [(''0xaa'', (''first'', 1000))], processedOpportunities = {}\<rparr>"
        and ob = "\<lparr>obs_pendingOpportunities = [(''0xaa'', (''first'', 1000))], processedTxs = [''0xaa'']\<rparr>"
        and detect = "\<lambda>h. Some ''second''"]
     in_flight_entry_unique_and_replaced
     [where h = "''0xaa''" and now = 2000 and opp = "''second''"
        and ds = "[(1000, ''0xaa'', ''first''), (2000, ''0xaa'', ''second'')]"
        and s = "\<lparr>pendingOpportunities = [], processedOpportunities = {''0xaa''}\<rparr>"
        and ob = "\<lparr>obs_pendingOpportunities = [(''0xaa'', (''first'', 1000))], processedTxs = [''0xaa'']\<rparr>"
        and detect = "\<lambda>h. Some ''second''"]
  by simp

text \<open>
  Claim C8 as stated fails: a second detection of an identifier whose entry is in flight
  is not a no-op. It replaces the entry, opportunity and detection time.
\<close>

theorem second_detection_replaces_entry:
  "pendingOpportunities (snd (addOpportunity 1000 ''0xaa'' ''first'' newOpportunityProcessor))
      = [(''0xaa'', (''first'', 1000))]
   \<and> pendingOpportunities
        (snd (addOpportunity 2000 ''0xaa'' ''second''
           (snd (addOpportunity 1000 ''0xaa'' ''first'' newOpportunityProcessor))))
      = [(''0xaa'', (''second'', 2000))]
   \<and> snd (addOpportunity 2000 ''0xaa'' ''second''
           (snd (addOpportunity 1000 ''0xaa'' ''first'' newOpportunityProcessor)))
      \<noteq> snd (addOpportunity 1000 ''0xaa'' ''first'' newOpportunityProcessor)"
  by (simp add: addOpportunity_def newOpportunityProcessor_def)

section \<open>Properties of the optimizer\<close>

lemma replicate_pos: "0 < n \<Longrightarrow> replicate n x = x # replicate (n - 1) x"
  by (cases n) simp_all
lemma natToString_small: "n < 10 \<Longrightarrow> natToString n = [digitChar n]"
  by (simp add: natToString.simps)
lemma natToString_large: "10 \<le> n \<Longrightarrow> natToString n = natToString (n div 10) @ [digitChar (n mod 10)]"
  by (subst natToString.simps) simp
lemmas evalStr = replicate_pos natToString_small natToString_large digitChar_def formatEther_def stripTrailingZeros_def
  js_string_to_number_def parseUnsignedDecimal_def parseExponent_def isDigit_def digitsValue_def scale10_def
  js_number_to_string_def parseEther_def splitDot_def


lemma digit_cases: "d < 10 \<Longrightarrow> d \<in> {0, 1, 2, 3, 4, 5, 6, 7, 8, 9 :: nat}"
  by auto

lemma digitChar_isDigit: "d < 10 \<Longrightarrow> isDigit (digitChar d)"
  by (drule digit_cases) (auto simp: digitChar_def isDigit_def)

lemma digitChar_value: "d < 10 \<Longrightarrow> of_char (digitChar d) - 48 = d"
  by (drule digit_cases) (auto simp: digitChar_def)

lemma digitsValue_snoc: "digitsValue (ds @ [c]) = 10 * digitsValue ds + (of_char c - 48)"
  by (simp add: digitsValue_def)

lemma natToString_digits: "list_all isDigit (natToString n)"
proof (induction n rule: natToString.induct)
  case (1 n)
  show ?case
  proof (cases "n < 10")
    case True
    then show ?thesis by (simp add: natToString_small digitChar_isDigit)
  next
    case False
    then have "list_all isDigit (natToString (n div 10))" using 1 by simp
    moreover have "isDigit (digitChar (n mod 10))" by (rule digitChar_isDigit) simp
    ultimately show ?thesis using False by (simp add: natToString_large)
  qed
qed

lemma natToString_nonempty: "natToString n \<noteq> []"
  by (cases "n < 10") (simp_all add: natToString_small natToString_large)

lemma natToString_value: "digitsValue (natToString n) = n"
proof (induction n rule: natToString.induct)
  case (1 n)
  show ?case
  proof (cases "n < 10")
    case True
    then show ?thesis by (simp add: natToString_small digitsValue_def digitChar_value)
  next
    case False
    then have "digitsValue (natToString (n div 10)) = n div 10" using 1 by simp
    moreover have "of_char (digitChar (n mod 10)) - 48 = n mod 10" by (rule digitChar_value) simp
    ultimately show ?thesis using False by (simp add: natToString_large digitsValue_snoc)
  qed
qed

lemma natToString_length: "n < 10 ^ k \<Longrightarrow> 0 < k \<Longrightarrow> length (natToString n) \<le> k"
proof (induction n arbitrary: k rule: natToString.induct)
  case (1 n)
  show ?case
  proof (cases "n < 10")
    case True
    with 1(3) show ?thesis by (simp add: natToString_small)
  next
    case False
    obtain j where k: "k = Suc j" using 1(3) by (cases k) auto
    have "0 < j"
    proof (rule ccontr)
      assume "\<not> 0 < j"
      with k 1(2) False show False by simp
    qed
    moreover from 1(2) k have "n div 10 < 10 ^ j" by (simp add: less_mult_imp_div_less mult.commute)
    ultimately have "length (natToString (n div 10)) \<le> j" using 1(1) False by simp
    with False k show ?thesis by (simp add: natToString_large)
  qed
qed

lemma digitsValue_zeros_front: "digitsValue (replicate j CHR ''0'' @ ds) = digitsValue ds"
  unfolding digitsValue_def by (induction j) simp_all

lemma digitsValue_zeros_back: "digitsValue (ds @ replicate j CHR ''0'') = digitsValue ds * 10 ^ j"
proof (induction j)
  case 0
  then show ?case by simp
next
  case (Suc j)
  have "ds @ replicate (Suc j) CHR ''0'' = (ds @ replicate j CHR ''0'') @ [CHR ''0'']"
    by (simp add: replicate_append_same)
  then show ?case using Suc by (simp only: digitsValue_snoc) simp
qed

lemma takeWhile_same:
  "takeWhile (\<lambda>c. c = z) xs = replicate (length (takeWhile (\<lambda>c. c = z) xs)) z"
  by (induction xs) auto

lemma strip_decompose:
  "ds = stripTrailingZeros ds
          @ replicate (length (takeWhile (\<lambda>c. c = CHR ''0'') (rev ds))) CHR ''0''"
proof -
  let ?P = "\<lambda>c. c = CHR ''0''"
  have "ds = rev (takeWhile ?P (rev ds) @ dropWhile ?P (rev ds))"
    by (simp only: takeWhile_dropWhile_id rev_rev_ident)
  also have "\<dots> = rev (dropWhile ?P (rev ds)) @ rev (takeWhile ?P (rev ds))"
    by (simp only: rev_append)
  also have "rev (takeWhile ?P (rev ds)) = replicate (length (takeWhile ?P (rev ds))) CHR ''0''"
    by (subst takeWhile_same) (simp only: rev_replicate)
  finally show ?thesis by (simp only: stripTrailingZeros_def)
qed

lemma strip_digits: "list_all isDigit ds \<Longrightarrow> list_all isDigit (stripTrailingZeros ds)"
proof -
  assume a: "list_all isDigit ds"
  then have "list_all isDigit (stripTrailingZeros ds
          @ replicate (length (takeWhile (\<lambda>c. c = CHR ''0'') (rev ds))) CHR ''0'')"
    using strip_decompose [of ds] by simp
  then show ?thesis by (simp only: list_all_append)
qed

lemma fraction_value:
  "real (digitsValue (stripTrailingZeros ds)) / 10 ^ length (stripTrailingZeros ds)
     = real (digitsValue ds) / 10 ^ length ds"
proof -
  let ?s = "stripTrailingZeros ds"
  let ?j = "length (takeWhile (\<lambda>c. c = CHR ''0'') (rev ds))"
  have "digitsValue ds = digitsValue (?s @ replicate ?j CHR ''0'')"
    using strip_decompose [of ds] by simp
  then have v: "digitsValue ds = digitsValue ?s * 10 ^ ?j"
    by (simp only: digitsValue_zeros_back)
  have "length ds = length (?s @ replicate ?j CHR ''0'')"
    using strip_decompose [of ds] by simp
  then have l: "length ds = length ?s + ?j" by simp
  show ?thesis by (simp add: v l power_add)
qed


lemma takeWhile_stop:
  "list_all P xs \<Longrightarrow> \<not> P y \<Longrightarrow> takeWhile P (xs @ y # ys) = xs"
  by (induction xs) simp_all

lemma dropWhile_stop:
  "list_all P xs \<Longrightarrow> \<not> P y \<Longrightarrow> dropWhile P (xs @ y # ys) = y # ys"
  by (induction xs) simp_all

lemma takeWhile_all: "list_all P xs \<Longrightarrow> takeWhile P xs = xs"
  by (induction xs) simp_all

lemma dropWhile_all: "list_all P xs \<Longrightarrow> dropWhile P xs = []"
  by (induction xs) simp_all

lemma parseUnsignedDecimal_digits:
  assumes W: "list_all isDigit W" "W \<noteq> []" and F: "list_all isDigit F"
  shows "parseUnsignedDecimal (W @ CHR ''.'' # F)
           = Some (real (digitsValue W) + real (digitsValue F) / 10 ^ length F)"
proof -
  have dot: "\<not> isDigit CHR ''.''" by (simp add: isDigit_def)
  have t: "takeWhile isDigit (W @ CHR ''.'' # F) = W"
    by (rule takeWhile_stop [OF W(1) dot])
  have d: "dropWhile isDigit (W @ CHR ''.'' # F) = CHR ''.'' # F"
    by (rule dropWhile_stop [OF W(1) dot])
  show ?thesis
    unfolding parseUnsignedDecimal_def t d Let_def
    using W(2) by (simp add: takeWhile_all [OF F] dropWhile_all [OF F] parseExponent_def scale10_def)
qed

lemma js_string_to_number_digits:
  assumes W: "list_all isDigit W" "W \<noteq> []" and F: "list_all isDigit F"
  shows "js_string_to_number (W @ CHR ''.'' # F)
           = Num (real (digitsValue W) + real (digitsValue F) / 10 ^ length F)"
proof -
  obtain c W' where c: "W = c # W'" using W(2) by (cases W) auto
  with W(1) have dc: "isDigit c" by simp
  then have sign: "c \<noteq> CHR ''-''" "c \<noteq> CHR ''+''" "c \<noteq> CHR ''I''"
    by (auto simp: isDigit_def)
  have inf: "W @ CHR ''.'' # F \<noteq> ''Infinity''" using c sign(3) by simp
  have body: "(case W @ CHR ''.'' # F of
                 [] \<Rightarrow> (False, W @ CHR ''.'' # F)
               | c # r \<Rightarrow> if c = CHR ''-'' then (True, r)
                          else if c = CHR ''+'' then (False, r) else (False, W @ CHR ''.'' # F))
              = (False, W @ CHR ''.'' # F)"
    using c sign by simp
  show ?thesis
    unfolding js_string_to_number_def body
    using inf by (simp add: parseUnsignedDecimal_digits [OF assms] del: append.simps)
qed

lemma formatEther_fraction:
  fixes m :: nat
  assumes "m < 10 ^ 18"
  defines "S \<equiv> stripTrailingZeros (replicate (18 - length (natToString m)) CHR ''0'' @ natToString m)"
  defines "F \<equiv> (if S = [] then ''0'' else S)"
  shows "list_all isDigit F" and "real (digitsValue F) / 10 ^ length F = real m / 10 ^ 18"
proof -
  let ?P = "replicate (18 - length (natToString m)) CHR ''0'' @ natToString m"
  have len: "length (natToString m) \<le> 18" by (rule natToString_length [OF assms(1)]) simp
  then have lP: "length ?P = 18" by simp
  have vP: "digitsValue ?P = m" by (simp only: digitsValue_zeros_front natToString_value)
  have "isDigit CHR ''0''" by (simp add: isDigit_def)
  then have "list_all isDigit (replicate (18 - length (natToString m)) CHR ''0'')"
    by (simp add: list_all_iff)
  with natToString_digits [of m] have dP: "list_all isDigit ?P"
    by (simp only: list_all_append)
  have fv: "real (digitsValue S) / 10 ^ length S = real m / 10 ^ 18"
    unfolding S_def using fraction_value [of ?P] by (simp only: vP lP)
  show "list_all isDigit F"
    unfolding F_def S_def using strip_digits [OF dP] by (simp add: isDigit_def)
  show "real (digitsValue F) / 10 ^ length F = real m / 10 ^ 18"
  proof (cases "S = []")
    case True
    with fv have "real m / 10 ^ 18 = 0" by (simp add: digitsValue_def)
    with True show ?thesis by (simp add: F_def digitsValue_def)
  next
    case False
    with fv show ?thesis by (simp add: F_def)
  qed
qed

lemma formatEther_number: "js_string_to_number (formatEther wei) = etherNumber wei"
proof -
  let ?W = "natToString (wei div 10 ^ 18)"
  let ?m = "wei mod 10 ^ 18"
  let ?S = "stripTrailingZeros (replicate (18 - length (natToString ?m)) CHR ''0'' @ natToString ?m)"
  let ?F = "if ?S = [] then ''0'' else ?S"
  have m: "?m < 10 ^ 18" by simp
  have fe: "formatEther wei = ?W @ CHR ''.'' # ?F"
    by (simp add: formatEther_def Let_def)
  have "js_string_to_number (?W @ CHR ''.'' # ?F)
          = Num (real (digitsValue ?W) + real (digitsValue ?F) / 10 ^ length ?F)"
    by (rule js_string_to_number_digits [OF natToString_digits natToString_nonempty
          formatEther_fraction(1) [OF m]])
  also have "real (digitsValue ?F) / 10 ^ length ?F = real ?m / 10 ^ 18"
    by (rule formatEther_fraction(2) [OF m])
  also have "real (digitsValue ?W) + real ?m / 10 ^ 18 = real wei / 10 ^ 18"
  proof -
    define q where "q = wei div 10 ^ 18"
    define r where "r = wei mod 10 ^ 18"
    have "wei = q * 10 ^ 18 + r" by (simp add: q_def r_def)
    then have "real wei = real q * 10 ^ 18 + real r" by simp
    then have "real q + real r / 10 ^ 18 = real wei / 10 ^ 18" by (simp add: add_divide_distrib)
    then show ?thesis by (simp only: natToString_value q_def r_def)
  qed
  finally show ?thesis by (simp only: fe etherNumber_def)
qed


lemma parseFloat_digits:
  assumes W: "list_all isDigit W" "W \<noteq> []" and F: "list_all isDigit F"
  shows "parseFloat (W @ CHR ''.'' # F)
           = Num (real (digitsValue W) + real (digitsValue F) / 10 ^ length F)"
proof -
  obtain c W' where c: "W = c # W'" using W(2) by (cases W) auto
  with W(1) have dc: "isDigit c" by simp
  then have sign: "c \<noteq> CHR ''-''" "c \<noteq> CHR ''+''" "c \<noteq> CHR ''I''"
    by (auto simp: isDigit_def)
  have inf: "\<not> startsWith (W @ CHR ''.'' # F) ''Infinity''"
    using c sign(3) by (simp add: startsWith_def)
  have body: "(case W @ CHR ''.'' # F of
                 [] \<Rightarrow> (False, W @ CHR ''.'' # F)
               | c # r \<Rightarrow> if c = CHR ''-'' then (True, r)
                          else if c = CHR ''+'' then (False, r) else (False, W @ CHR ''.'' # F))
              = (False, W @ CHR ''.'' # F)"
    using c sign by simp
  have dot: "\<not> isDigit CHR ''.''" by (simp add: isDigit_def)
  have t: "takeWhile isDigit (W @ CHR ''.'' # F) = W"
    by (rule takeWhile_stop [OF W(1) dot])
  have d: "dropWhile isDigit (W @ CHR ''.'' # F) = CHR ''.'' # F"
    by (rule dropWhile_stop [OF W(1) dot])
  show ?thesis
    unfolding parseFloat_def body
    using inf W(2)
    by (simp add: t d takeWhile_all [OF F] dropWhile_all [OF F] exponentPrefix_def scale10_def
             del: append.simps)
qed

lemma formatEther_parseFloat: "parseFloat (formatEther wei) = etherNumber wei"
proof -
  let ?W = "natToString (wei div 10 ^ 18)"
  let ?m = "wei mod 10 ^ 18"
  let ?S = "stripTrailingZeros (replicate (18 - length (natToString ?m)) CHR ''0'' @ natToString ?m)"
  let ?F = "if ?S = [] then ''0'' else ?S"
  have m: "?m < 10 ^ 18" by simp
  have fe: "formatEther wei = ?W @ CHR ''.'' # ?F"
    by (simp add: formatEther_def Let_def)
  have "parseFloat (formatEther wei) = js_string_to_number (formatEther wei)"
    unfolding fe
    by (simp only: parseFloat_digits [OF natToString_digits natToString_nonempty
          formatEther_fraction(1) [OF m]]
        js_string_to_number_digits [OF natToString_digits natToString_nonempty
          formatEther_fraction(1) [OF m]])
  then show ?thesis by (simp only: formatEther_number)
qed

lemmas etherNumbers = formatEther_number formatEther_parseFloat



lemma sqrt_9970: "sqrt 9970 < 1000"
  by (rule real_less_lsqrt) simp_all

lemma scenarioA_fields:
  "etherNumber (reserveIn scenarioA) = Num 1000"
  "etherNumber (reserveOut scenarioA) = Num 1000"
  "etherNumber (victimAmount scenarioA) = Num 10"
  "feeMultiplier scenarioA = Num (997 / 1000)"
  by (simp_all add: scenarioA_def etherNumber_def feeMultiplier_def)

lemma scenarioA_unconstrained:
  "unconstrainedOptimum scenarioA = Num ((sqrt 9970 - 1000) / (997 / 1000))"
  by (simp add: unconstrainedOptimum_def etherNumbers scenarioA_fields Let_def js_sub_def)

lemma scenarioA_negative: "(sqrt 9970 - 1000) / (997 / 1000) < 0"
  using sqrt_9970 by (simp add: divide_less_0_iff)

lemma scenarioA_capped: "cappedOptimalAmount scenarioA = Num 0"
proof -
  have "max 0 ((sqrt 9970 - 1000) / (997 / 1000)) = 0"
    using scenarioA_negative by (simp only: max_def) simp
  then show ?thesis
    unfolding cappedOptimalAmount_def Let_def scenarioA_unconstrained etherNumbers scenarioA_fields
    by (simp del: times_divide_eq_left times_divide_eq_right divide_divide_eq_left divide_divide_eq_right)
qed

lemma scenarioA_denominator:
  "js_string_to_number (formatEther (reserveIn scenarioA) @ js_number_to_string dtoa (Num 0)) = Num 1000"
  by (simp add: scenarioA_def evalStr)

lemma scenarioA_sim:
  "simulateSandwich dtoa scenarioA =
     \<lparr>frontRunOutput = Num 0, newX1 = Num 1000, newY1 = Num 1000,
      victimOutput = Num (9970 / (1000 + 10 * (997 / 1000))),
      newX2 = Num (1000 + 10 * (997 / 1000)),
      newY2 = Num (1000 - 9970 / (1000 + 10 * (997 / 1000))),
      backRunOutput = Num 0\<rparr>"
  unfolding simulateSandwich_def Let_def scenarioA_capped etherNumbers scenarioA_fields
  by (simp add: scenarioA_denominator js_sub_def)

lemma parseEther_zero: "parseEther (js_number_to_string dtoa (Num 0)) = Inr 0"
  by (simp add: evalStr)

lemma scenarioA_result:
  "calculateOptimalFrontRunAmount dtoa scenarioA =
     Inr \<lparr>r_optimalFrontRunAmount = 0, r_optimalBackRunAmount = 0, r_expectedProfit = 0,
          r_confidence = Num 1\<rparr>"
  unfolding calculateOptimalFrontRunAmount_def Let_def scenarioA_capped scenarioA_sim etherNumbers scenarioA_fields
  by (simp add: js_sub_def parseEther_zero bindE_def)

lemma sqrt_994009: "sqrt 994009 = 997"
  by (rule real_sqrt_unique) simp_all

lemma bigVictim_fields:
  "etherNumber (reserveIn bigVictim) = Num 1"
  "etherNumber (reserveOut bigVictim) = Num 1"
  "etherNumber (victimAmount bigVictim) = Num 997000"
  "feeMultiplier bigVictim = Num (997 / 1000)"
  by (simp_all add: bigVictim_def etherNumber_def feeMultiplier_def)

lemma bigVictim_capped: "cappedOptimalAmount bigVictim = Num (996000 / 997)"
  unfolding cappedOptimalAmount_def unconstrainedOptimum_def Let_def etherNumbers bigVictim_fields
  by (simp add: js_sub_def sqrt_994009)

lemma bigVictim_denominator:
  "js_string_to_number (formatEther (reserveIn bigVictim) @ js_number_to_string dtoa (Num 996))
     = Num (10996 / 10000)"
  by (simp add: bigVictim_def evalStr)







text \<open>
  Claim C3. The simulation does not apply the constant-product formula in its first hop:
  the denominator is the number read from the text of \<^verbatim>\<open>x\<close> followed by the text of
  \<^verbatim>\<open>a* * feeMultiplier\<close>. With 1 ether on each side of the pool and a victim input of 997000
  ether, \<^verbatim>\<open>a* * feeMultiplier\<close> is 996, the denominator is 1.0996 instead of 997, and the
  front-run output is about 905.78 ether out of a reserve of 1 ether; the updated output
  reserve is negative.
\<close>

theorem simulation_first_hop_exceeds_reserve:
  "frontRunOutput (simulateSandwich dtoa bigVictim) = Num (2490000 / 2749)
   \<and> etherNumber (reserveOut bigVictim) = Num 1
   \<and> newY1 (simulateSandwich dtoa bigVictim) = Num (- 2487251 / 2749)"
proof -
  have cf: "js_mul (Num (996000 / 997)) (Num (997 / 1000)) = Num 996" by simp
  show ?thesis
    unfolding simulateSandwich_def Let_def bigVictim_capped etherNumbers bigVictim_fields cf
    by (simp add: bigVictim_denominator js_sub_def)
qed


lemma GAS_BUFFER_faults: "bn_from_number GAS_BUFFER = Inl (Error ''underflow'')"
  by (simp add: bn_from_number_def GAS_BUFFER_def)

lemma calculateOptimalSandwichParams_always:
  "calculateOptimalSandwichParams cfg dtoa env opp = notProfitable"
  by (simp add: calculateOptimalSandwichParams_def bindE_def GAS_BUFFER_faults split: sum.splits)

lemma calculateOptimalGasPrice_max:
  "calculateOptimalGasPrice v nc = max (v * 115 div 100) (nc_gasPrice nc * 110 div 100)"
  by (simp add: calculateOptimalGasPrice_def minFrontRunGasPrice_def Let_def max_def)

lemma floor_percent: "\<lfloor>real n * (real k / 100)\<rfloor> = int (n * k div 100)"
proof -
  have "real n * (real k / 100) = real (n * k) / real 100" by simp
  then show ?thesis by (simp only: floor_divide_of_nat_eq)
qed

lemma floor_max:
  fixes a b :: real
  shows "\<lfloor>max a b\<rfloor> = max \<lfloor>a\<rfloor> \<lfloor>b\<rfloor>"
proof (cases "a \<le> b")
  case True
  then have "\<lfloor>a\<rfloor> \<le> \<lfloor>b\<rfloor>" by (rule floor_mono)
  with True show ?thesis by (simp add: max_absorb2)
next
  case False
  then have "b \<le> a" by simp
  then have "\<lfloor>b\<rfloor> \<le> \<lfloor>a\<rfloor>" by (rule floor_mono)
  with \<open>b \<le> a\<close> show ?thesis by (simp add: max_absorb1)
qed

lemma calculateOptimalGasPrice_floor:
  "int (calculateOptimalGasPrice v nc) = \<lfloor>max (real v * 1.15) (real (nc_gasPrice nc) * 1.10)\<rfloor>"
proof -
  have a: "\<lfloor>real v * 1.15\<rfloor> = int (v * 115 div 100)"
    using floor_percent [of v 115] by simp
  have b: "\<lfloor>real (nc_gasPrice nc) * 1.10\<rfloor> = int (nc_gasPrice nc * 110 div 100)"
    using floor_percent [of "nc_gasPrice nc" 110] by simp
  show ?thesis
    by (simp only: floor_max a b calculateOptimalGasPrice_max)
qed

lemma costsAndGasPrice_Inr:
  "costsAndGasPrice cfg nc g result = Inr l \<Longrightarrow>
     l_finalGasPrice l = min (calculateOptimalGasPrice g nc) (MAX_GAS_PRICE cfg * gwei)
     \<and> l_profitable l = (l_netProfit l > minProfitThresholdWei cfg)"
  unfolding costsAndGasPrice_def bindE_def bn_div_def BIPS_DIVISOR_def Let_def
  by (auto simp: min_def)

lemma costsAndGasPrice_profitable_independent:
  "map_sum id l_profitable (costsAndGasPrice cfg nc g result)
     = map_sum id l_profitable (costsAndGasPrice cfg nc g' result)"
  unfolding costsAndGasPrice_def bindE_def bn_div_def BIPS_DIVISOR_def Let_def
  by simp

lemma sandwichLocals_cases:
  "sandwichLocals cfg dtoa env opp = Inr l \<Longrightarrow>
     \<exists>result. costsAndGasPrice cfg (getNetworkConditions env) (opp_gasPrice opp) result = Inr l"
  unfolding sandwichLocals_def Let_def bindE_def
  by (cases "path opp") (auto split: sum.splits)

lemma sandwichLocals_gas:
  assumes "sandwichLocals cfg dtoa env opp = Inr l"
  shows "l_finalGasPrice l =
           min (calculateOptimalGasPrice (opp_gasPrice opp) (getNetworkConditions env))
               (MAX_GAS_PRICE cfg * gwei)"
    and "l_profitable l = (l_netProfit l > minProfitThresholdWei cfg)"
  using sandwichLocals_cases [OF assms] costsAndGasPrice_Inr by blast+

lemma sandwichLocals_profitable_independent:
  "map_sum id l_profitable (sandwichLocals cfg dtoa env (opp\<lparr>opp_gasPrice := g\<rparr>))
     = map_sum id l_profitable (sandwichLocals cfg dtoa env opp)"
proof (cases "path opp")
  case Nil
  then show ?thesis by (simp add: sandwichLocals_def)
next
  case (Cons tokenIn rest)
  show ?thesis
    unfolding sandwichLocals_def Let_def bindE_def
    using costsAndGasPrice_profitable_independent [of cfg "getNetworkConditions env" g _ "opp_gasPrice opp"]
    by (simp add: Cons split: sum.splits)
qed

lemma scenarioAOpportunity_params:
  "sandwichLocals cfg dtoa env scenarioAOpportunity =
     bindE (calculateOptimalFrontRunAmount dtoa scenarioA)
       (costsAndGasPrice cfg (getNetworkConditions env) (100 * gwei + 1))"
  by (simp add: sandwichLocals_def scenarioAOpportunity_def scenarioA_def Let_def)

lemma scenarioA_locals:
  "sandwichLocals cfg dtoa env scenarioAOpportunity =
     Inr \<lparr>l_result = \<lparr>r_optimalFrontRunAmount = 0, r_optimalBackRunAmount = 0,
                      r_expectedProfit = 0, r_confidence = Num 1\<rparr>,
          l_flashLoanAmount = 0,
          l_gasCost = int (nc_gasPrice (getNetworkConditions env)) * 600000,
          l_flashLoanFee = 0,
          l_netProfit = - (int (nc_gasPrice (getNetworkConditions env)) * 600000),
          l_profitable = (minProfitThresholdWei cfg < - (int (nc_gasPrice (getNetworkConditions env)) * 600000)),
          l_optimalGasPrice = calculateOptimalGasPrice (100 * gwei + 1) (getNetworkConditions env),
          l_finalGasPrice = min (calculateOptimalGasPrice (100 * gwei + 1) (getNetworkConditions env))
                                (MAX_GAS_PRICE cfg * gwei)\<rparr>"
  unfolding scenarioAOpportunity_params scenarioA_result bindE_def costsAndGasPrice_def Let_def
  by (simp add: bn_div_def truncDiv_def BIPS_DIVISOR_def AAVE_FEE_BIPS_def min_def)

lemma exampleProvider_conditions:
  "getNetworkConditions exampleProvider =
     \<lparr>nc_blockNumber = 18000000, nc_timestamp = 1700000000, nc_gasPrice = 50 * gwei,
      nc_baseFee = 40 * gwei\<rparr>"
  by (simp add: getNetworkConditions_def exampleProvider_def bindE_def)

lemma example_locals:
  "sandwichLocals defaultConfig (\<lambda>r. []) exampleProvider scenarioAOpportunity =
     Inr \<lparr>l_result = \<lparr>r_optimalFrontRunAmount = 0, r_optimalBackRunAmount = 0,
                      r_expectedProfit = 0, r_confidence = Num 1\<rparr>,
          l_flashLoanAmount = 0,
          l_gasCost = 30000000000000000,
          l_flashLoanFee = 0,
          l_netProfit = - 30000000000000000,
          l_profitable = False,
          l_optimalGasPrice = 115000000001,
          l_finalGasPrice = 100000000000\<rparr>"
  unfolding scenarioA_locals exampleProvider_conditions
  by (simp add: calculateOptimalGasPrice_max defaultConfig_def gwei_def)

text \<open>
  Claim C2. With reserves (1000, 1000), fee 0.3% and a victim input of 10 the unconstrained
  optimum \<open>(sqrt 9970 - 1000) / 0.997\<close> is negative, the clamp gives 0, and
  \<^verbatim>\<open>calculateOptimalFrontRunAmount\<close> returns front-run amount 0, back-run amount 0, expected
  profit 0 (and confidence 1). In \<^verbatim>\<open>calculateOptimalSandwichParams\<close> the net profit is then
  minus the gas cost and the object returned has \<^verbatim>\<open>profitable: false\<close>. A pass of the
  processor over a pending map that holds this opportunity never dispatches it: when the
  provider's gas price cannot be read or is above the maximum the entry stays pending, and
  otherwise the entry is dropped and its hash marked processed; the executor is left as it
  was in each case.
\<close>

theorem scenarioA_zero_front_run_rejected:
  "unconstrainedOptimum scenarioA = Num ((sqrt 9970 - 1000) / (997 / 1000))
   \<and> (sqrt 9970 - 1000) / (997 / 1000) < 0
   \<and> cappedOptimalAmount scenarioA = Num 0
   \<and> calculateOptimalFrontRunAmount dtoa scenarioA =
       Inr \<lparr>r_optimalFrontRunAmount = 0, r_optimalBackRunAmount = 0, r_expectedProfit = 0,
            r_confidence = Num 1\<rparr>
   \<and> map_sum id l_netProfit (sandwichLocals cfg dtoa penv scenarioAOpportunity)
       = Inr (- (int (nc_gasPrice (getNetworkConditions penv)) * 600000))
   \<and> sp_profitable (calculateOptimalSandwichParams cfg dtoa penv scenarioAOpportunity) = False
   \<and> processOpportunities cfg dtoa penv xenv W U now timeout currentGasPrice
         (proc\<lparr>pendingOpportunities := [(h, scenarioAOpportunity, detected)]\<rparr>, ex)
       = (case currentGasPrice of
            Inl e \<Rightarrow> (proc\<lparr>pendingOpportunities := [(h, scenarioAOpportunity, detected)]\<rparr>, ex)
          | Inr price \<Rightarrow>
              if price > MAX_GAS_PRICE cfg * gwei
              then (proc\<lparr>pendingOpportunities := [(h, scenarioAOpportunity, detected)]\<rparr>, ex)
              else (proc\<lparr>pendingOpportunities := [],
                         processedOpportunities := insert h (processedOpportunities proc)\<rparr>, ex))"
proof -
  have body: "processOpportunity cfg dtoa penv xenv W U now timeout h (scenarioAOpportunity, detected)
                (proc\<lparr>pendingOpportunities := [(h, scenarioAOpportunity, detected)]\<rparr>, ex)
              = (proc\<lparr>pendingOpportunities := [],
                       processedOpportunities := insert h (processedOpportunities proc)\<rparr>, ex)"
    by (simp add: processOpportunity_def calculateOptimalSandwichParams_always notProfitable_def
          map_delete_def Let_def)
  have pass: "processOpportunities cfg dtoa penv xenv W U now timeout currentGasPrice
         (proc\<lparr>pendingOpportunities := [(h, scenarioAOpportunity, detected)]\<rparr>, ex)
       = (case currentGasPrice of
            Inl e \<Rightarrow> (proc\<lparr>pendingOpportunities := [(h, scenarioAOpportunity, detected)]\<rparr>, ex)
          | Inr price \<Rightarrow>
              if price > MAX_GAS_PRICE cfg * gwei
              then (proc\<lparr>pendingOpportunities := [(h, scenarioAOpportunity, detected)]\<rparr>, ex)
              else (proc\<lparr>pendingOpportunities := [],
                         processedOpportunities := insert h (processedOpportunities proc)\<rparr>, ex))"
    unfolding processOpportunities_def
    by (cases currentGasPrice) (simp_all add: body)
  show ?thesis
    by (simp only: pass)
       (simp add: scenarioA_unconstrained scenarioA_negative scenarioA_capped scenarioA_result
          scenarioA_locals calculateOptimalSandwichParams_always notProfitable_def sqrt_9970)
qed


text \<open>
  Claim C4. \<^verbatim>\<open>calculateOptimalSandwichParams\<close> computes the price the claim describes and
  then loses it. For a victim bidding 20 gwei, a network price of 50 gwei and a maximum of
  100 gwei the local \<^verbatim>\<open>finalGasPrice\<close> is 55 gwei, the larger of 23 and 55 gwei, below the
  cap. The \<^verbatim>\<open>return\<close> expression then evaluates \<^verbatim>\<open>estimatedGasUsed.mul(this.GAS_BUFFER)\<close>
  with \<^verbatim>\<open>GAS_BUFFER = 1.2\<close>, which \<^verbatim>\<open>BigNumber\<close> rejects, and the \<^verbatim>\<open>catch\<close> returns an
  object without a gas price and with \<^verbatim>\<open>profitable: false\<close>. This happens for every
  opportunity, so no opportunity ever gets a suggested gas price.
\<close>

theorem suggested_gas_price_is_never_returned:
  "map_sum id l_finalGasPrice
       (sandwichLocals defaultConfig dtoa exampleProvider (scenarioAOpportunity\<lparr>opp_gasPrice := 20 * gwei\<rparr>))
     = Inr (55 * gwei)
   \<and> 55 * gwei = max (20 * gwei * 115 div 100) (50 * gwei * 110 div 100)
   \<and> 55 * gwei < MAX_GAS_PRICE defaultConfig * gwei
   \<and> bn_from_number GAS_BUFFER = Inl (Error ''underflow'')
   \<and> sp_gasPrice (calculateOptimalSandwichParams defaultConfig dtoa exampleProvider
                    (scenarioAOpportunity\<lparr>opp_gasPrice := 20 * gwei\<rparr>)) = None
   \<and> calculateOptimalSandwichParams cfg dtoa env opp =
       \<lparr>sp_flashLoanAmount = None, sp_frontRunAmount = None, sp_backRunAmount = None,
        sp_expectedProfit = None, sp_netProfit = None, sp_gasPrice = None, sp_gasLimit = None,
        sp_profitable = False, sp_confidence = Num 0\<rparr>"
proof -
  have always: "calculateOptimalSandwichParams cfg' dtoa' env' opp' = notProfitable"
    for cfg' dtoa' env' opp'
    by (simp add: calculateOptimalSandwichParams_def bindE_def GAS_BUFFER_faults split: sum.splits)
  have locals: "sandwichLocals defaultConfig dtoa exampleProvider (scenarioAOpportunity\<lparr>opp_gasPrice := 20 * gwei\<rparr>)
      = bindE (calculateOptimalFrontRunAmount dtoa scenarioA)
          (costsAndGasPrice defaultConfig (getNetworkConditions exampleProvider) (20 * gwei))"
    by (simp add: sandwichLocals_def scenarioAOpportunity_def scenarioA_def Let_def)
  have price: "map_sum id l_finalGasPrice
       (sandwichLocals defaultConfig dtoa exampleProvider (scenarioAOpportunity\<lparr>opp_gasPrice := 20 * gwei\<rparr>))
     = Inr (55 * gwei)"
    unfolding locals scenarioA_result bindE_def costsAndGasPrice_def Let_def exampleProvider_conditions
    by (simp add: bn_div_def truncDiv_def BIPS_DIVISOR_def AAVE_FEE_BIPS_def
          calculateOptimalGasPrice_max defaultConfig_def gwei_def)
  show ?thesis
    by (simp only: price always)
       (simp add: notProfitable_def GAS_BUFFER_faults defaultConfig_def gwei_def)
qed


section \<open>Properties of overlapping dispatches\<close>

text \<open>
  The three segments of one call, run one after the other, do what \<^verbatim>\<open>refreshNonce\<close>
  followed by \<^verbatim>\<open>this.currentNonce++\<close> does in \<open>executeSandwich\<close>.
\<close>

lemma segments_in_sequence:
  "runDispatches s 1
      [(0, Enter (ex_now env)), (0, CountSettles (getTransactionCount env)), (0, Resume)]
     = (case refreshNonce env s of
          Inl e \<Rightarrow> (s, [Failed])
        | Inr s1 \<Rightarrow>
            (s1\<lparr>currentNonce := Some ((case currentNonce s1 of None \<Rightarrow> 0 | Some n \<Rightarrow> n) + 1)\<rparr>,
             [Assigned (case currentNonce s1 of None \<Rightarrow> 0 | Some n \<Rightarrow> n)]))"
proof (cases "noNonce (currentNonce s) \<or> ex_now env - lastNonceRefresh s > nonceRefreshInterval s")
  case False
  then show ?thesis
    by (simp add: runDispatches_def step_def refreshNonce_def Let_def)
next
  case True
  show ?thesis
  proof (cases "getTransactionCount env")
    case (Inr n)
    with True show ?thesis
      by (simp add: runDispatches_def step_def refreshNonce_def Let_def)
  next
    case (Inl e)
    with True show ?thesis
      by (cases "noNonce (currentNonce s)")
         (simp_all add: runDispatches_def step_def refreshNonce_def Let_def)
  qed
qed

lemma assignedNonces_update:
  "i < length pcs \<Longrightarrow> nonceOf (pcs ! i) = [] \<Longrightarrow>
     mset (assignedNonces (pcs[i := pc])) = mset (nonceOf pc) + mset (assignedNonces pcs)"
  unfolding assignedNonces_def
  by (induction pcs arbitrary: i) (auto simp: nth_Cons split: nat.splits)

lemma assignedNonces_update_length:
  "i < length pcs \<Longrightarrow> nonceOf (pcs ! i) = [] \<Longrightarrow>
     length (assignedNonces (pcs[i := pc])) = length (nonceOf pc) + length (assignedNonces pcs)"
  using arg_cong [OF assignedNonces_update, of i pcs size pc] by simp

lemma mset_upt_Suc: "mset [b ..< b + Suc k] = add_mset (b + k) (mset [b ..< b + k])"
  by (simp del: mset_upt)

lemma settled_update: "list_all settled pcs \<Longrightarrow> settled pc \<Longrightarrow> list_all settled (pcs[i := pc])"
  by (induction pcs arbitrary: i) (auto split: nat.splits)

lemma consecutive_step:
  assumes I: "consecutive base ex0 st" and b: "0 < base"
    and ok: "case snd iev of Enter now \<Rightarrow> now - lastNonceRefresh ex0 \<le> nonceRefreshInterval ex0 | _ \<Rightarrow> True"
  shows "consecutive base ex0 (step st iev)"
proof -
  obtain ex pcs where st: "st = (ex, pcs)" by (cases st)
  obtain i ev where iev: "iev = (i, ev)" by (cases iev)
  show ?thesis
  proof (cases "i < length pcs")
    case False
    with I st iev show ?thesis by (simp add: step_def)
  next
    case True
    from I st have cn: "currentNonce ex = Some (base + length (assignedNonces pcs))"
      and lr: "lastNonceRefresh ex = lastNonceRefresh ex0"
      and iv: "nonceRefreshInterval ex = nonceRefreshInterval ex0"
      and settled: "list_all settled pcs"
      and ms: "mset (assignedNonces pcs) = mset [base ..< base + length (assignedNonces pcs)]"
      by (simp_all add: consecutive_def)
    from settled True have ci: "settled (pcs ! i)" by (simp add: list_all_length)
    from cn b have nn: "\<not> noNonce (currentNonce ex)" by (simp add: noNonce_def)
    show ?thesis
    proof (cases "pcs ! i")
      case NotStarted
      show ?thesis
      proof (cases ev)
        case (Enter now)
        with ok iev lr iv nn have "segment ex NotStarted (Enter now) = (ex, AfterRefresh)" by simp
        with True NotStarted Enter st iev have "step st iev = (ex, pcs[i := AfterRefresh])"
          by (simp add: step_def)
        moreover have "mset (assignedNonces (pcs[i := AfterRefresh])) = mset (assignedNonces pcs)"
          using assignedNonces_update [OF True, of AfterRefresh] NotStarted by simp
        moreover have "length (assignedNonces (pcs[i := AfterRefresh])) = length (assignedNonces pcs)"
          using assignedNonces_update_length [OF True, of AfterRefresh] NotStarted by simp
        ultimately show ?thesis
          using cn lr iv ms settled by (simp add: consecutive_def settled_update settled_def)
      next
        case (CountSettles a)
        with True NotStarted st iev have "step st iev = (ex, pcs[i := NotStarted])" by (simp add: step_def)
        with NotStarted have "step st iev = st" using st by (metis list_update_id)
        with I show ?thesis by simp
      next
        case Resume
        with True NotStarted st iev have "step st iev = (ex, pcs[i := NotStarted])" by (simp add: step_def)
        with NotStarted have "step st iev = st" using st by (metis list_update_id)
        with I show ?thesis by simp
      qed
    next
      case (AwaitingCount t)
      with ci show ?thesis by (simp add: settled_def)
    next
      case AfterRefresh
      show ?thesis
      proof (cases ev)
        case Resume
        let ?k = "length (assignedNonces pcs)"
        from cn have "segment ex AfterRefresh Resume
            = (ex\<lparr>currentNonce := Some (base + ?k + 1)\<rparr>, Assigned (base + ?k))"
          by (simp add: Let_def)
        with True AfterRefresh Resume st iev
        have S: "step st iev = (ex\<lparr>currentNonce := Some (base + ?k + 1)\<rparr>, pcs[i := Assigned (base + ?k)])"
          by (simp add: step_def)
        have M: "mset (assignedNonces (pcs[i := Assigned (base + ?k)]))
                   = add_mset (base + ?k) (mset (assignedNonces pcs))"
          using assignedNonces_update [OF True, of "Assigned (base + ?k)"] AfterRefresh by simp
        have L: "length (assignedNonces (pcs[i := Assigned (base + ?k)])) = Suc ?k"
          using assignedNonces_update_length [OF True, of "Assigned (base + ?k)"] AfterRefresh by simp
        show ?thesis
          unfolding S consecutive_def
          using lr iv ms settled mset_upt_Suc [of base ?k]
          by (simp add: M L settled_update settled_def del: mset_upt)
      next
        case (Enter now)
        with True AfterRefresh st iev have "step st iev = (ex, pcs[i := AfterRefresh])" by (simp add: step_def)
        with AfterRefresh have "step st iev = st" using st by (metis list_update_id)
        with I show ?thesis by simp
      next
        case (CountSettles a)
        with True AfterRefresh st iev have "step st iev = (ex, pcs[i := AfterRefresh])" by (simp add: step_def)
        with AfterRefresh have "step st iev = st" using st by (metis list_update_id)
        with I show ?thesis by simp
      qed
    next
      case (Assigned n)
      with True st iev have "step st iev = (ex, pcs[i := Assigned n])" by (simp add: step_def)
      with Assigned have "step st iev = st" using st by (metis list_update_id)
      with I show ?thesis by simp
    next
      case Failed
      with ci show ?thesis by (simp add: settled_def)
    qed
  qed
qed

lemma consecutive_foldl:
  "consecutive base ex0 st \<Longrightarrow> 0 < base \<Longrightarrow> noRefreshDue ex0 evs \<Longrightarrow> consecutive base ex0 (foldl step st evs)"
proof (induction evs arbitrary: st)
  case Nil
  then show ?case by simp
next
  case (Cons iev evs)
  from Cons.prems(3) have ok: "case snd iev of Enter now \<Rightarrow> now - lastNonceRefresh ex0 \<le> nonceRefreshInterval ex0 | _ \<Rightarrow> True"
    and rest: "noRefreshDue ex0 evs"
    by (simp_all add: noRefreshDue_def)
  from consecutive_step [OF Cons.prems(1) Cons.prems(2) ok]
  show ?case using Cons.IH [OF _ Cons.prems(2) rest] by simp
qed

lemma consecutive_init: "currentNonce ex = Some base \<Longrightarrow> consecutive base ex (ex, replicate n NotStarted)"
  by (induction n) (simp_all add: consecutive_def assignedNonces_def settled_def)

text \<open>
  Claim C9, as the code has it. The nonce is read and incremented in one uninterrupted
  segment (\<^verbatim>\<open>this.currentNonce++\<close>, with no \<^verbatim>\<open>await\<close> between the read and the write). When a
  non-zero nonce \<open>base\<close> is held and no dispatch finds a refresh due, then under every
  interleaving of any number of dispatches the nonces assigned so far are exactly
  \<open>base, ..., base + k - 1\<close> for the \<open>k\<close> dispatches that have taken one, without repeats,
  and the counter stands at \<open>base + k\<close>.
\<close>

theorem nonces_consecutive_when_no_refresh_due:
  assumes "currentNonce ex = Some base" and "0 < base" and "noRefreshDue ex evs"
  shows "set (assignedNonces (snd (runDispatches ex n evs)))
           = {base ..< base + length (assignedNonces (snd (runDispatches ex n evs)))}
         \<and> distinct (assignedNonces (snd (runDispatches ex n evs)))
         \<and> currentNonce (fst (runDispatches ex n evs))
           = Some (base + length (assignedNonces (snd (runDispatches ex n evs))))"
proof -
  have "consecutive base ex (runDispatches ex n evs)"
    unfolding runDispatches_def
    by (rule consecutive_foldl [OF consecutive_init [OF assms(1)] assms(2) assms(3)])
  then have M: "mset (assignedNonces (snd (runDispatches ex n evs)))
           = mset [base ..< base + length (assignedNonces (snd (runDispatches ex n evs)))]"
    and C: "currentNonce (fst (runDispatches ex n evs))
           = Some (base + length (assignedNonces (snd (runDispatches ex n evs))))"
    by (cases "runDispatches ex n evs", simp add: consecutive_def)+
  from M have "set (assignedNonces (snd (runDispatches ex n evs)))
           = set [base ..< base + length (assignedNonces (snd (runDispatches ex n evs)))]"
    by (rule mset_eq_setD)
  moreover from M have "distinct (assignedNonces (snd (runDispatches ex n evs)))"
    by (metis distinct_upt mset_eq_imp_distinct_iff)
  ultimately show ?thesis using C by simp
qed

theorem nonces_consecutive_when_no_refresh_due_witness:
  "currentNonce \<lparr>currentNonce = Some 7, lastNonceRefresh = 1000, nonceRefreshInterval = 30000,
                  sent = []\<rparr> = Some 7
   \<and> (0::nat) < 7
   \<and> noRefreshDue \<lparr>currentNonce = Some 7, lastNonceRefresh = 1000, nonceRefreshInterval = 30000,
                    sent = []\<rparr>
        [(0, Enter 2000), (1, Enter 2001), (2, Enter 2002), (1, Resume), (0, Resume), (2, Resume)]
   \<and> assignedNonces (snd (runDispatches
         \<lparr>currentNonce = Some 7, lastNonceRefresh = 1000, nonceRefreshInterval = 30000, sent = []\<rparr> 3
         [(0, Enter 2000), (1, Enter 2001), (2, Enter 2002), (1, Resume), (0, Resume), (2, Resume)]))
       = [8, 7, 9]
   \<and> set [8, 7, 9 :: nat] = {7 ..< 7 + 3}
   \<and> currentNonce (fst (runDispatches
         \<lparr>currentNonce = Some 7, lastNonceRefresh = 1000, nonceRefreshInterval = 30000, sent = []\<rparr> 3
         [(0, Enter 2000), (1, Enter 2001), (2, Enter 2002), (1, Resume), (0, Resume), (2, Resume)]))
       = Some 10"
proof -
  let ?ex = "\<lparr>currentNonce = Some 7, lastNonceRefresh = 1000, nonceRefreshInterval = 30000,
              sent = []\<rparr>"
  let ?evs = "[(0, Enter 2000), (1, Enter 2001), (2, Enter 2002), (1, Resume), (0, Resume),
               (2 :: nat, Resume)]"
  have a: "currentNonce ?ex = Some 7" by simp
  have b: "(0::nat) < 7" by simp
  have c: "noRefreshDue ?ex ?evs" by (simp add: noRefreshDue_def)
  have d: "assignedNonces (snd (runDispatches ?ex 3 ?evs)) = [8, 7, 9]"
    by (simp add: runDispatches_def step_def noNonce_def eval_nat_numeral assignedNonces_def)
  from nonces_consecutive_when_no_refresh_due [OF a b c, of 3] a b c d
  show ?thesis by simp
qed

text \<open>
  Claim C9 as stated fails. Two dispatches that both start while no nonce is held both ask
  the chain; the first stores the answer 7 and takes nonce 7, then the second stores its
  answer, 7 as well, over the counter and takes nonce 7 again.
\<close>

theorem concurrent_refresh_assigns_same_nonce:
  "snd (runDispatches newSandwichExecutor 2
      [(0, Enter 1000), (1, Enter 1001), (0, CountSettles (Inr 7)), (0, Resume),
       (1, CountSettles (Inr 7)), (1, Resume)])
     = [Assigned 7, Assigned 7]"
  by (simp add: runDispatches_def step_def newSandwichExecutor_def noNonce_def eval_nat_numeral)


end
